theory Spec2Isabelle
  imports Main "HOL-Library.Countable" "HOL-Library.Signed_Division"
begin

section \<open>The expression IR\<close>

text \<open>
  The zero-elimination pass (\<^verbatim>\<open>src/pass/zero_elimination.cc\<close>) works on the
  expression IR of the compiler. The IR's node classes, its builder operators and its
  helper predicates are declared in headers that are not part of the files at hand, so
  this section models them from the specification (section 3, "Expr / Var / Range"):
  variables, constants, arithmetic, comparisons, boolean connectives,
  \<^verbatim>\<open>Select\<close>, \<^verbatim>\<open>Cast\<close>, \<^verbatim>\<open>Call\<close> and \<^verbatim>\<open>Reduce\<close>, and the remaining
  expression nodes of the IR that the pass can meet: \<^verbatim>\<open>Let\<close>, \<^verbatim>\<open>Load\<close>,
  \<^verbatim>\<open>Ramp\<close>, \<^verbatim>\<open>Broadcast\<close> and \<^verbatim>\<open>Shuffle\<close>.
\<close>

text \<open>Modelled from the spec: the IR's scalar types; \<^verbatim>\<open>Bool()\<close> is \<^verbatim>\<open>UInt(1)\<close>.\<close>

datatype dtype = Int_t nat | UInt_t nat | Float_t nat | Handle_t

definition Bool_t :: dtype where
  "Bool_t = UInt_t 1"

fun is_int :: "dtype \<Rightarrow> bool" where
  "is_int (Int_t b) = True"
| "is_int t = False"

fun is_uint :: "dtype \<Rightarrow> bool" where
  "is_uint (UInt_t b) = True"
| "is_uint t = False"

definition is_bool :: "dtype \<Rightarrow> bool" where
  "is_bool t = (t = UInt_t 1)"

text \<open>
  Modelled from the spec: a variable. The source identifies a variable by the address
  of its node; the model identifies it by its name hint and type.
\<close>

datatype var = Var (name_hint: string) (vtype: dtype)

datatype arith_op = Add | Sub | Mul | Div | Mod | FloorDiv | FloorMod | MinE | MaxE

datatype cmp_op = EQ | NE | LT | LE | GT | GE

text \<open>
  Modelled from the spec: the expression nodes (a single tagged union). A reduction is
  \<^verbatim>\<open>Reduce(combiner, source[], axis[], condition, value_index)\<close>; its combiner
  has the variables of the two operands, the result expressions and the identity
  elements, and each axis is a variable with the minimum and the extent of its range.
  \<^verbatim>\<open>Load(type, buffer_var, index, predicate)\<close> reads a buffer,
  \<^verbatim>\<open>Let(var, value, body)\<close> binds a variable, and \<^verbatim>\<open>Ramp(base, stride, lanes)\<close>,
  \<^verbatim>\<open>Broadcast(value, lanes)\<close> and \<^verbatim>\<open>Shuffle(vectors, indices)\<close> build vectors.
  The number of lanes is not part of \<^typ>\<open>dtype\<close>.
\<close>

type_synonym 'e comm_reducer = "var list \<times> var list \<times> 'e list \<times> 'e list"

type_synonym 'e iter_var = "var \<times> 'e \<times> 'e"

datatype expr =
    Variable var
  | IntImm dtype int
  | UIntImm dtype nat
  | FloatImm dtype rat
  | StringImm string
  | Cast dtype expr
  | Arith arith_op expr expr
  | Cmp cmp_op expr expr
  | And expr expr
  | Or expr expr
  | NotE expr
  | Select expr expr expr
  | Call dtype string "expr list"
  | LetE var expr expr
  | Load dtype var expr expr
  | Ramp expr expr nat
  | Broadcast expr nat
  | Shuffle "expr list" "expr list"
  | Reduce "expr comm_reducer" "expr list" "expr iter_var list" expr nat

text \<open>Modelled from the spec: \<^verbatim>\<open>e.type()\<close>, the type every node carries.\<close>

fun type_of :: "expr \<Rightarrow> dtype" where
  "type_of (Variable v) = vtype v"
| "type_of (IntImm t i) = t"
| "type_of (UIntImm t n) = t"
| "type_of (FloatImm t r) = t"
| "type_of (StringImm s) = Handle_t"
| "type_of (Cast t e) = t"
| "type_of (Arith opr a b) = type_of a"
| "type_of (Cmp opr a b) = Bool_t"
| "type_of (And a b) = Bool_t"
| "type_of (Or a b) = Bool_t"
| "type_of (NotE a) = Bool_t"
| "type_of (Select c t f) = type_of t"
| "type_of (Call t n args) = t"
| "type_of (LetE v a b) = type_of b"
| "type_of (Load t buf i p) = t"
| "type_of (Ramp base stride lanes) = type_of base"
| "type_of (Broadcast a lanes) = type_of a"
| "type_of (Shuffle vectors indices) = (case vectors of [] \<Rightarrow> Handle_t | a # as \<Rightarrow> type_of a)"
| "type_of (Reduce combiner source axis cond value_index) =
     (if value_index < length source then map type_of source ! value_index else Handle_t)"

text \<open>
  Modelled from the spec: the IR's builders. \<^verbatim>\<open>make_const(t, v)\<close> builds the literal
  of type \<^verbatim>\<open>t\<close>; the overloaded C++ operators on expressions
  (\<^verbatim>\<open>&&\<close>, \<^verbatim>\<open>||\<close>, \<^verbatim>\<open>!\<close>, \<^verbatim>\<open>==\<close>, \<^verbatim>\<open>>=\<close>,
  \<^verbatim>\<open>+\<close>, \<^verbatim>\<open>-\<close>, \<^verbatim>\<open>*\<close>) and \<^verbatim>\<open>truncdiv\<close>, \<^verbatim>\<open>floordiv\<close>,
  \<^verbatim>\<open>truncmod\<close>, \<^verbatim>\<open>floormod\<close>, \<^verbatim>\<open>if_then_else\<close> build the node of the
  same name.
\<close>

fun make_const :: "dtype \<Rightarrow> int \<Rightarrow> expr" where
  "make_const (Int_t b) v = IntImm (Int_t b) v"
| "make_const (UInt_t b) v = UIntImm (UInt_t b) (nat v)"
| "make_const t v = FloatImm t (of_int v)"

definition make_zero :: "dtype \<Rightarrow> expr" where
  "make_zero t = make_const t 0"

definition const_true :: expr where
  "const_true = make_const Bool_t 1"

definition const_false :: expr where
  "const_false = make_const Bool_t 0"

definition if_then_else :: "expr \<Rightarrow> expr \<Rightarrow> expr \<Rightarrow> expr" where
  "if_then_else c t f = Call (type_of t) ''tvm_if_then_else'' [c, t, f]"

definition truncdiv :: "expr \<Rightarrow> expr \<Rightarrow> expr" where
  "truncdiv a b = Arith Div a b"

definition truncmod :: "expr \<Rightarrow> expr \<Rightarrow> expr" where
  "truncmod a b = Arith Mod a b"

definition floordiv :: "expr \<Rightarrow> expr \<Rightarrow> expr" where
  "floordiv a b = Arith FloorDiv a b"

definition floormod :: "expr \<Rightarrow> expr \<Rightarrow> expr" where
  "floormod a b = Arith FloorMod a b"

text \<open>
  Modelled from the spec: the literal tests \<^verbatim>\<open>is_const_int\<close>, \<^verbatim>\<open>is_one\<close>,
  \<^verbatim>\<open>is_zero\<close> and \<^verbatim>\<open>is_const_value\<close> (the last one also looks through casts).
\<close>

fun is_const_int :: "expr \<Rightarrow> int \<Rightarrow> bool" where
  "is_const_int (IntImm t i) v = (i = v)"
| "is_const_int (UIntImm t n) v = (int n = v)"
| "is_const_int e v = False"

definition is_one :: "expr \<Rightarrow> bool" where
  "is_one e = is_const_int e 1"

definition is_zero :: "expr \<Rightarrow> bool" where
  "is_zero e = is_const_int e 0"

fun is_const_value :: "expr \<Rightarrow> int \<Rightarrow> bool" where
  "is_const_value (IntImm t i) v = (i = v)"
| "is_const_value (UIntImm t n) v = (0 \<le> v \<and> int n = v)"
| "is_const_value (FloatImm t r) v = (r = of_int v)"
| "is_const_value (Cast t e) v = is_const_value e v"
| "is_const_value e v = False"

text \<open>
  Modelled from the spec: the variables that a visit of the expression meets, and
  \<^verbatim>\<open>ExprUseVar\<close>. The visit of a \<^verbatim>\<open>Load\<close> meets the buffer variable, and the
  visit of a \<^verbatim>\<open>Reduce\<close> goes through the ranges of the axes, the sources and the
  condition.
\<close>

fun vars_of :: "expr \<Rightarrow> var set" where
  "vars_of (Variable v) = {v}"
| "vars_of (IntImm t i) = {}"
| "vars_of (UIntImm t n) = {}"
| "vars_of (FloatImm t r) = {}"
| "vars_of (StringImm s) = {}"
| "vars_of (Cast t e) = vars_of e"
| "vars_of (Arith opr a b) = vars_of a \<union> vars_of b"
| "vars_of (Cmp opr a b) = vars_of a \<union> vars_of b"
| "vars_of (And a b) = vars_of a \<union> vars_of b"
| "vars_of (Or a b) = vars_of a \<union> vars_of b"
| "vars_of (NotE a) = vars_of a"
| "vars_of (Select c t f) = vars_of c \<union> vars_of t \<union> vars_of f"
| "vars_of (Call t n args) = (\<Union>a \<in> set args. vars_of a)"
| "vars_of (LetE v a b) = vars_of a \<union> vars_of b"
| "vars_of (Load t buf i p) = {buf} \<union> vars_of i \<union> vars_of p"
| "vars_of (Ramp base stride lanes) = vars_of base \<union> vars_of stride"
| "vars_of (Broadcast a lanes) = vars_of a"
| "vars_of (Shuffle vectors indices) =
     (\<Union>a \<in> set vectors. vars_of a) \<union> (\<Union>a \<in> set indices. vars_of a)"
| "vars_of (Reduce combiner source axis cond value_index) =
     (\<Union>(v, lo, ext) \<in> set axis. vars_of lo \<union> vars_of ext) \<union>
     (\<Union>a \<in> set source. vars_of a) \<union> vars_of cond"

definition ExprUseVar :: "expr \<Rightarrow> var set \<Rightarrow> bool" where
  "ExprUseVar e vs = (vars_of e \<inter> vs \<noteq> {})"

subsection \<open>Denotation\<close>

text \<open>
  Modelled from the spec: the value of an expression under an assignment, over the
  mathematical integers and the booleans. An expression has no value
  (\<^term>\<open>None\<close>) where it divides by zero, where an operand has the wrong kind, or
  where it is a floating-point or string literal: floating-point arithmetic is outside
  this denotation. Neither are memory, binders, vectors and reductions part of it, so
  \<^verbatim>\<open>Load\<close>, \<^verbatim>\<open>Let\<close>, \<^verbatim>\<open>Ramp\<close>, \<^verbatim>\<open>Broadcast\<close>, \<^verbatim>\<open>Shuffle\<close> and
  \<^verbatim>\<open>Reduce\<close> have no value. \<^verbatim>\<open>Select\<close> and \<^verbatim>\<open>if_then_else\<close> evaluate
  both branches.
\<close>

datatype val = VInt int | VBool bool

record env =
  var_val :: "var \<Rightarrow> val"
  call_val :: "string \<Rightarrow> val list \<Rightarrow> val option"

fun conforms :: "dtype \<Rightarrow> val \<Rightarrow> bool" where
  "conforms (Int_t b) (VInt i) = True"
| "conforms (UInt_t b) (VInt i) = (b \<noteq> 1)"
| "conforms (UInt_t b) (VBool p) = (b = 1)"
| "conforms t v = False"

fun same_kind :: "val \<Rightarrow> val \<Rightarrow> bool" where
  "same_kind (VInt i) (VInt j) = True"
| "same_kind (VBool p) (VBool q) = True"
| "same_kind v w = False"

fun arith :: "arith_op \<Rightarrow> int \<Rightarrow> int \<Rightarrow> int option" where
  "arith Add x y = Some (x + y)"
| "arith Sub x y = Some (x - y)"
| "arith Mul x y = Some (x * y)"
| "arith Div x y = (if y = 0 then None else Some (x sdiv y))"
| "arith Mod x y = (if y = 0 then None else Some (x smod y))"
| "arith FloorDiv x y = (if y = 0 then None else Some (x div y))"
| "arith FloorMod x y = (if y = 0 then None else Some (x mod y))"
| "arith MinE x y = Some (min x y)"
| "arith MaxE x y = Some (max x y)"

fun cmp :: "cmp_op \<Rightarrow> int \<Rightarrow> int \<Rightarrow> bool" where
  "cmp EQ x y = (x = y)"
| "cmp NE x y = (x \<noteq> y)"
| "cmp LT x y = (x < y)"
| "cmp LE x y = (x \<le> y)"
| "cmp GT x y = (x > y)"
| "cmp GE x y = (x \<ge> y)"

fun arith_val :: "arith_op \<Rightarrow> val \<Rightarrow> val \<Rightarrow> val option" where
  "arith_val opr (VInt x) (VInt y) = map_option VInt (arith opr x y)"
| "arith_val opr (VBool p) (VBool q) = (if opr = Mul then Some (VBool (p \<and> q)) else None)"
| "arith_val opr v w = None"

fun cmp_val :: "cmp_op \<Rightarrow> val \<Rightarrow> val \<Rightarrow> val option" where
  "cmp_val opr (VInt x) (VInt y) = Some (VBool (cmp opr x y))"
| "cmp_val opr (VBool p) (VBool q) =
     (if opr = EQ then Some (VBool (p = q))
      else if opr = NE then Some (VBool (p \<noteq> q)) else None)"
| "cmp_val opr v w = None"

fun and_val :: "val \<Rightarrow> val \<Rightarrow> val option" where
  "and_val (VBool p) (VBool q) = Some (VBool (p \<and> q))"
| "and_val v w = None"

fun or_val :: "val \<Rightarrow> val \<Rightarrow> val option" where
  "or_val (VBool p) (VBool q) = Some (VBool (p \<or> q))"
| "or_val v w = None"

fun not_val :: "val \<Rightarrow> val option" where
  "not_val (VBool p) = Some (VBool (\<not> p))"
| "not_val v = None"

fun select_val :: "val \<Rightarrow> val \<Rightarrow> val \<Rightarrow> val option" where
  "select_val (VBool p) x y = (if same_kind x y then Some (if p then x else y) else None)"
| "select_val c x y = None"

fun cast_val :: "dtype \<Rightarrow> val \<Rightarrow> val option" where
  "cast_val (Int_t b) (VInt i) = Some (VInt i)"
| "cast_val (Int_t b) (VBool p) = Some (VInt (if p then 1 else 0))"
| "cast_val (UInt_t b) (VInt i) = Some (if b = 1 then VBool (i \<noteq> 0) else VInt i)"
| "cast_val (UInt_t b) (VBool p) = Some (if b = 1 then VBool p else VInt (if p then 1 else 0))"
| "cast_val t v = None"

definition checked :: "dtype \<Rightarrow> val option \<Rightarrow> val option" where
  "checked t r = (case r of None \<Rightarrow> None | Some v \<Rightarrow> if conforms t v then Some v else None)"

fun those_vals :: "val option list \<Rightarrow> val list option" where
  "those_vals [] = Some []"
| "those_vals (None # rs) = None"
| "those_vals (Some v # rs) = map_option ((#) v) (those_vals rs)"

fun eval :: "env \<Rightarrow> expr \<Rightarrow> val option" where
  "eval E (Variable v) = checked (vtype v) (Some (var_val E v))"
| "eval E (IntImm t i) = (if is_int t then Some (VInt i) else None)"
| "eval E (UIntImm t n) =
     (if is_bool t then Some (VBool (n \<noteq> 0))
      else if is_uint t then Some (VInt (int n)) else None)"
| "eval E (FloatImm t r) = None"
| "eval E (StringImm s) = None"
| "eval E (Cast t e) = Option.bind (eval E e) (cast_val t)"
| "eval E (Arith opr a b) =
     Option.bind (eval E a) (\<lambda>x. Option.bind (eval E b) (\<lambda>y. arith_val opr x y))"
| "eval E (Cmp opr a b) =
     Option.bind (eval E a) (\<lambda>x. Option.bind (eval E b) (\<lambda>y. cmp_val opr x y))"
| "eval E (And a b) =
     Option.bind (eval E a) (\<lambda>x. Option.bind (eval E b) (\<lambda>y. and_val x y))"
| "eval E (Or a b) =
     Option.bind (eval E a) (\<lambda>x. Option.bind (eval E b) (\<lambda>y. or_val x y))"
| "eval E (NotE a) = Option.bind (eval E a) not_val"
| "eval E (Select c t f) =
     Option.bind (eval E c) (\<lambda>p. Option.bind (eval E t) (\<lambda>x.
       Option.bind (eval E f) (\<lambda>y. select_val p x y)))"
| "eval E (Call t n args) =
     (case those_vals (map (eval E) args) of
        None \<Rightarrow> None
      | Some vs \<Rightarrow>
          if n = ''tvm_if_then_else''
          then (case vs of [p, x, y] \<Rightarrow> checked t (select_val p x y) | _ \<Rightarrow> None)
          else checked t (call_val E n vs))"
| "eval E (LetE v a b) = None"
| "eval E (Load t buf i p) = None"
| "eval E (Ramp base stride lanes) = None"
| "eval E (Broadcast a lanes) = None"
| "eval E (Shuffle vectors indices) = None"
| "eval E (Reduce combiner source axis cond value_index) = None"

text \<open>
  The invariants that the IR's node constructors check when a node is built: the
  operands of a binary operation have one type, the operands of a boolean connective
  are boolean, and so is the condition of a \<^verbatim>\<open>Select\<close>, whose branches have
  one type.
\<close>

fun well_formed :: "expr \<Rightarrow> bool" where
  "well_formed (Cast t e) = well_formed e"
| "well_formed (Arith opr a b) = (type_of a = type_of b \<and> well_formed a \<and> well_formed b)"
| "well_formed (Cmp opr a b) = (type_of a = type_of b \<and> well_formed a \<and> well_formed b)"
| "well_formed (And a b) =
     (is_bool (type_of a) \<and> is_bool (type_of b) \<and> well_formed a \<and> well_formed b)"
| "well_formed (Or a b) =
     (is_bool (type_of a) \<and> is_bool (type_of b) \<and> well_formed a \<and> well_formed b)"
| "well_formed (NotE a) = (is_bool (type_of a) \<and> well_formed a)"
| "well_formed (Select c t f) =
     (is_bool (type_of c) \<and> type_of t = type_of f \<and>
      well_formed c \<and> well_formed t \<and> well_formed f)"
| "well_formed (Call t n args) = (\<forall>a \<in> set args. well_formed a)"
| "well_formed e = True"

section \<open>Implications not containing given variables\<close>

text \<open>
  \<^verbatim>\<open>ImplicationNotContainingVars\<close> (zero_elimination.cc, lines 2298-2320). The
  \<^verbatim>\<open>CHECK\<close> on the type of the condition aborts; the model returns \<^term>\<open>None\<close>
  there.
\<close>

fun ImplicationNotContainingVars :: "expr \<Rightarrow> var set \<Rightarrow> (expr \<times> expr) option" where
  "ImplicationNotContainingVars (And a b) vars =
     (case ImplicationNotContainingVars a vars of
        None \<Rightarrow> None
      | Some pair_a \<Rightarrow>
          (case ImplicationNotContainingVars b vars of
             None \<Rightarrow> None
           | Some pair_b \<Rightarrow>
               Some (And (fst pair_a) (fst pair_b), And (snd pair_a) (snd pair_b))))"
| "ImplicationNotContainingVars (Or a b) vars =
     (case ImplicationNotContainingVars a vars of
        None \<Rightarrow> None
      | Some pair_a \<Rightarrow>
          (case ImplicationNotContainingVars b vars of
             None \<Rightarrow> None
           | Some pair_b \<Rightarrow>
               Some (Or (fst pair_a) (fst pair_b),
                     And (And (Or (fst pair_a) (snd pair_b))
                              (Or (fst pair_b) (snd pair_a)))
                         (Or (snd pair_a) (snd pair_b)))))"
| "ImplicationNotContainingVars cond vars =
     (if \<not> is_bool (type_of cond) then None
      else if \<not> ExprUseVar cond vars then Some (cond, const_true)
      else Some (const_true, cond))"

section \<open>Ranges, substitution and the simplifier\<close>

text \<open>Modelled from the spec: a \<^verbatim>\<open>Range\<close> is \<^verbatim>\<open>(min, extent)\<close>.\<close>

record range =
  range_min :: expr
  extent :: expr

text \<open>
  Modelled from the spec: \<^verbatim>\<open>Substitute(e, map)\<close> replaces the variables that the
  map binds, all at once. A \<^verbatim>\<open>Map<Var, T>\<close> is a finite map \<open>var \<rightharpoonup> T\<close>.
\<close>

fun Substitute :: "expr \<Rightarrow> (var \<rightharpoonup> expr) \<Rightarrow> expr" where
  "Substitute (Variable v) m = (case m v of None \<Rightarrow> Variable v | Some e \<Rightarrow> e)"
| "Substitute (IntImm t i) m = IntImm t i"
| "Substitute (UIntImm t n) m = UIntImm t n"
| "Substitute (FloatImm t r) m = FloatImm t r"
| "Substitute (StringImm s) m = StringImm s"
| "Substitute (Cast t e) m = Cast t (Substitute e m)"
| "Substitute (Arith opr a b) m = Arith opr (Substitute a m) (Substitute b m)"
| "Substitute (Cmp opr a b) m = Cmp opr (Substitute a m) (Substitute b m)"
| "Substitute (And a b) m = And (Substitute a m) (Substitute b m)"
| "Substitute (Or a b) m = Or (Substitute a m) (Substitute b m)"
| "Substitute (NotE a) m = NotE (Substitute a m)"
| "Substitute (Select c t f) m = Select (Substitute c m) (Substitute t m) (Substitute f m)"
| "Substitute (Call t n args) m = Call t n (map (\<lambda>a. Substitute a m) args)"
| "Substitute (LetE v a b) m = LetE v (Substitute a m) (Substitute b m)"
| "Substitute (Load t buf i p) m = Load t buf (Substitute i m) (Substitute p m)"
| "Substitute (Ramp base stride lanes) m = Ramp (Substitute base m) (Substitute stride m) lanes"
| "Substitute (Broadcast a lanes) m = Broadcast (Substitute a m) lanes"
| "Substitute (Shuffle vectors indices) m = Shuffle (map (\<lambda>a. Substitute a m) vectors) indices"
| "Substitute (Reduce combiner source axis cond value_index) m =
     Reduce combiner (map (\<lambda>a. Substitute a m) source)
       (map (\<lambda>(v, lo, ext). (v, Substitute lo m, Substitute ext m)) axis)
       (Substitute cond m) value_index"

text \<open>
  \<^verbatim>\<open>SuperSimplify\<close> (lines 211-237) substitutes every variable whose range has
  extent \<open>1\<close> by the minimum of the range and then runs the two simplifiers of
  \<^verbatim>\<open>arith::Analyzer\<close>, with the ranges bound, in the order rewrite, canonical,
  rewrite. The analyzer is not part of the files at hand; it is a parameter.
  \<^verbatim>\<open>CanProve\<close> is at lines 240-242, \<^verbatim>\<open>SelectElseZero\<close> at lines 206-208.
\<close>

record analyzer =
  rewrite_simplify :: "(var \<rightharpoonup> range) \<Rightarrow> expr \<Rightarrow> expr"
  canonical_simplify :: "(var \<rightharpoonup> range) \<Rightarrow> expr \<Rightarrow> expr"

definition SelectElseZero :: "expr \<Rightarrow> expr \<Rightarrow> expr" where
  "SelectElseZero cond on_true = Select cond on_true (make_zero (type_of on_true))"

definition SuperSimplify :: "analyzer \<Rightarrow> expr \<Rightarrow> (var \<rightharpoonup> range) \<Rightarrow> expr" where
  "SuperSimplify an e vranges =
     (let vmap = (\<lambda>v. case vranges v of
                         None \<Rightarrow> None
                       | Some r \<Rightarrow> if is_const_int (extent r) 1 then Some (range_min r) else None);
          e1 = (if vmap = Map.empty then e else Substitute e vmap);
          res1 = rewrite_simplify an vranges e1;
          res2 = canonical_simplify an vranges res1
      in rewrite_simplify an vranges res2)"

definition CanProve :: "analyzer \<Rightarrow> expr \<Rightarrow> (var \<rightharpoonup> range) \<Rightarrow> bool" where
  "CanProve an e vranges = is_one (SuperSimplify an e vranges)"

section \<open>Nonzeroness conditions\<close>

text \<open>
  \<^verbatim>\<open>NonzeronessConditionFunctor\<close> (lines 518-698). The helper of each node kind
  takes the results for the operands, which the source computes inside the helper.
  \<^verbatim>\<open>same_as\<close> is the identity of nodes by address, which the source uses to reuse
  the node at hand instead of building an equal one; it is a parameter.
\<close>

record NonzeronessConditionResult =
  nz_cond :: expr
  nz_value :: expr

definition to_expr :: "NonzeronessConditionResult \<Rightarrow> expr" where
  "to_expr r = SelectElseZero (nz_cond r) (nz_value r)"

definition Default_nz :: "expr \<Rightarrow> NonzeronessConditionResult" where
  "Default_nz e = \<lparr>nz_cond = const_true, nz_value = e\<rparr>"

definition Const_nz :: "bool \<Rightarrow> expr \<Rightarrow> NonzeronessConditionResult" where
  "Const_nz value_is_zero e =
     (if value_is_zero then \<lparr>nz_cond = const_false, nz_value = e\<rparr>
      else \<lparr>nz_cond = const_true, nz_value = e\<rparr>)"

definition BinOpAddLike ::
  "analyzer \<Rightarrow> (expr \<Rightarrow> expr \<Rightarrow> bool) \<Rightarrow> arith_op \<Rightarrow> expr \<Rightarrow> expr \<Rightarrow>
   NonzeronessConditionResult \<Rightarrow> NonzeronessConditionResult \<Rightarrow> NonzeronessConditionResult" where
  "BinOpAddLike an same_as opr a b nz_a nz_b =
     (if nz_cond nz_a = nz_cond nz_b then
        (if same_as (nz_value nz_a) a \<and> same_as (nz_value nz_b) b
         then \<lparr>nz_cond = nz_cond nz_a, nz_value = Arith opr a b\<rparr>
         else \<lparr>nz_cond = nz_cond nz_a, nz_value = Arith opr (nz_value nz_a) (nz_value nz_b)\<rparr>)
      else
        (let new_cond = SuperSimplify an (Or (nz_cond nz_a) (nz_cond nz_b)) Map.empty;
             new_a = (if nz_cond nz_a = new_cond then nz_value nz_a else to_expr nz_a);
             new_b = (if nz_cond nz_b = new_cond then nz_value nz_b else to_expr nz_b)
         in \<lparr>nz_cond = new_cond, nz_value = Arith opr new_a new_b\<rparr>))"

definition BinOpMulLike ::
  "analyzer \<Rightarrow> (expr \<Rightarrow> expr \<Rightarrow> bool) \<Rightarrow> arith_op \<Rightarrow> expr \<Rightarrow> expr \<Rightarrow>
   NonzeronessConditionResult \<Rightarrow> NonzeronessConditionResult \<Rightarrow> NonzeronessConditionResult" where
  "BinOpMulLike an same_as opr a b nz_a nz_b =
     (let new_cond = SuperSimplify an (And (nz_cond nz_a) (nz_cond nz_b)) Map.empty
      in if same_as (nz_value nz_a) a \<and> same_as (nz_value nz_b) b
         then \<lparr>nz_cond = new_cond, nz_value = Arith opr a b\<rparr>
         else \<lparr>nz_cond = new_cond, nz_value = Arith opr (nz_value nz_a) (nz_value nz_b)\<rparr>)"

definition BinOpDivLike ::
  "(expr \<Rightarrow> expr \<Rightarrow> bool) \<Rightarrow> arith_op \<Rightarrow> expr \<Rightarrow> expr \<Rightarrow>
   NonzeronessConditionResult \<Rightarrow> NonzeronessConditionResult" where
  "BinOpDivLike same_as opr a b nz_a =
     (if same_as (nz_value nz_a) a
      then \<lparr>nz_cond = nz_cond nz_a, nz_value = Arith opr a b\<rparr>
      else \<lparr>nz_cond = nz_cond nz_a, nz_value = Arith opr (nz_value nz_a) b\<rparr>)"

definition VisitCast ::
  "(expr \<Rightarrow> expr \<Rightarrow> bool) \<Rightarrow> dtype \<Rightarrow> expr \<Rightarrow>
   NonzeronessConditionResult \<Rightarrow> NonzeronessConditionResult" where
  "VisitCast same_as t a nz_a =
     (if same_as (nz_value nz_a) a
      then \<lparr>nz_cond = nz_cond nz_a, nz_value = Cast t a\<rparr>
      else \<lparr>nz_cond = nz_cond nz_a, nz_value = Cast t (nz_value nz_a)\<rparr>)"

definition VisitSelect ::
  "analyzer \<Rightarrow> (expr \<Rightarrow> expr \<Rightarrow> bool) \<Rightarrow> expr \<Rightarrow> expr \<Rightarrow> expr \<Rightarrow>
   NonzeronessConditionResult \<Rightarrow> NonzeronessConditionResult \<Rightarrow> NonzeronessConditionResult" where
  "VisitSelect an same_as cond true_val false_val nz_a nz_b =
     (if is_const_value (nz_value nz_b) 0 then
        \<lparr>nz_cond = SuperSimplify an (And (nz_cond nz_a) cond) Map.empty,
         nz_value = nz_value nz_a\<rparr>
      else if is_const_value (nz_value nz_a) 0 then
        \<lparr>nz_cond = SuperSimplify an (And (nz_cond nz_b) (NotE cond)) Map.empty,
         nz_value = nz_value nz_b\<rparr>
      else
        (let new_cond = SuperSimplify an
               (Or (And cond (nz_cond nz_a)) (And (NotE cond) (nz_cond nz_b))) Map.empty
         in if same_as (nz_value nz_a) true_val \<and> same_as (nz_value nz_b) false_val
            then \<lparr>nz_cond = new_cond, nz_value = Select cond true_val false_val\<rparr>
            else \<lparr>nz_cond = new_cond, nz_value = Select cond (nz_value nz_a) (nz_value nz_b)\<rparr>))"

definition VisitIfThenElse ::
  "analyzer \<Rightarrow> (expr \<Rightarrow> expr \<Rightarrow> bool) \<Rightarrow> expr \<Rightarrow> expr \<Rightarrow> expr \<Rightarrow> expr \<Rightarrow>
   NonzeronessConditionResult \<Rightarrow> NonzeronessConditionResult \<Rightarrow> NonzeronessConditionResult" where
  "VisitIfThenElse an same_as e cond true_val false_val nz_a nz_b =
     (let new_cond = SuperSimplify an
            (Or (And cond (nz_cond nz_a)) (And (NotE cond) (nz_cond nz_b))) Map.empty
      in if same_as (nz_value nz_a) true_val \<and> same_as (nz_value nz_b) false_val
         then \<lparr>nz_cond = new_cond, nz_value = e\<rparr>
         else \<lparr>nz_cond = new_cond,
               nz_value = if_then_else cond (nz_value nz_a) (nz_value nz_b)\<rparr>)"

text \<open>
  \<^verbatim>\<open>NonzeronessCondition\<close> (lines 535-542) returns \<open>(e, true)\<close> for a boolean
  expression and dispatches on the node otherwise (lines 545-613). Comparisons and
  connectives are always boolean. An \<^verbatim>\<open>if_then_else\<close> call has three arguments.
  The functor has no case for \<^verbatim>\<open>Let\<close>, \<^verbatim>\<open>Load\<close>, \<^verbatim>\<open>Ramp\<close>,
  \<^verbatim>\<open>Broadcast\<close>, \<^verbatim>\<open>Shuffle\<close> and \<^verbatim>\<open>Reduce\<close>, and it does not override the
  default of the dispatch, which is a fatal error: there the function aborts, which is
  the result \<^term>\<open>None\<close>.
\<close>

definition bool_nz :: "expr \<Rightarrow> NonzeronessConditionResult" where
  "bool_nz e = \<lparr>nz_cond = e, nz_value = const_true\<rparr>"

fun NonzeronessCondition ::
  "analyzer \<Rightarrow> (expr \<Rightarrow> expr \<Rightarrow> bool) \<Rightarrow> expr \<Rightarrow> NonzeronessConditionResult option" where
  "NonzeronessCondition an same_as (Variable v) =
     (if is_bool (vtype v) then Some (bool_nz (Variable v))
      else Some (Default_nz (Variable v)))"
| "NonzeronessCondition an same_as (IntImm t i) =
     (if is_bool t then Some (bool_nz (IntImm t i))
      else Some (Const_nz (i = 0) (IntImm t i)))"
| "NonzeronessCondition an same_as (UIntImm t n) =
     (if is_bool t then Some (bool_nz (UIntImm t n))
      else Some (Const_nz (n = 0) (UIntImm t n)))"
| "NonzeronessCondition an same_as (FloatImm t r) =
     (if is_bool t then Some (bool_nz (FloatImm t r))
      else Some (Const_nz (r = 0) (FloatImm t r)))"
| "NonzeronessCondition an same_as (StringImm s) = Some (Default_nz (StringImm s))"
| "NonzeronessCondition an same_as (Cast t a) =
     (if is_bool t then Some (bool_nz (Cast t a))
      else (case NonzeronessCondition an same_as a of
              None \<Rightarrow> None
            | Some nz_a \<Rightarrow> Some (VisitCast same_as t a nz_a)))"
| "NonzeronessCondition an same_as (Arith opr a b) =
     (if is_bool (type_of a) then Some (bool_nz (Arith opr a b))
      else if opr = Add \<or> opr = Sub \<or> opr = MinE \<or> opr = MaxE then
        (case NonzeronessCondition an same_as a of
           None \<Rightarrow> None
         | Some nz_a \<Rightarrow>
             (case NonzeronessCondition an same_as b of
                None \<Rightarrow> None
              | Some nz_b \<Rightarrow> Some (BinOpAddLike an same_as opr a b nz_a nz_b)))
      else if opr = Mul then
        (case NonzeronessCondition an same_as a of
           None \<Rightarrow> None
         | Some nz_a \<Rightarrow>
             (case NonzeronessCondition an same_as b of
                None \<Rightarrow> None
              | Some nz_b \<Rightarrow> Some (BinOpMulLike an same_as opr a b nz_a nz_b)))
      else
        (case NonzeronessCondition an same_as a of
           None \<Rightarrow> None
         | Some nz_a \<Rightarrow> Some (BinOpDivLike same_as opr a b nz_a)))"
| "NonzeronessCondition an same_as (Cmp opr a b) = Some (bool_nz (Cmp opr a b))"
| "NonzeronessCondition an same_as (And a b) = Some (bool_nz (And a b))"
| "NonzeronessCondition an same_as (Or a b) = Some (bool_nz (Or a b))"
| "NonzeronessCondition an same_as (NotE a) = Some (bool_nz (NotE a))"
| "NonzeronessCondition an same_as (Select c t f) =
     (if is_bool (type_of t) then Some (bool_nz (Select c t f))
      else
        (case NonzeronessCondition an same_as t of
           None \<Rightarrow> None
         | Some nz_a \<Rightarrow>
             (case NonzeronessCondition an same_as f of
                None \<Rightarrow> None
              | Some nz_b \<Rightarrow> Some (VisitSelect an same_as c t f nz_a nz_b))))"
| "NonzeronessCondition an same_as (Call t n args) =
     (if is_bool t then Some (bool_nz (Call t n args))
      else if n = ''tvm_if_then_else'' then
        (case args of
           [cond, true_val, false_val] \<Rightarrow>
             (case NonzeronessCondition an same_as true_val of
                None \<Rightarrow> None
              | Some nz_a \<Rightarrow>
                  (case NonzeronessCondition an same_as false_val of
                     None \<Rightarrow> None
                   | Some nz_b \<Rightarrow>
                       Some (VisitIfThenElse an same_as (Call t n args)
                               cond true_val false_val nz_a nz_b)))
         | _ \<Rightarrow> Some (Default_nz (Call t n args)))
      else Some (Default_nz (Call t n args)))"
| "NonzeronessCondition an same_as e =
     (if is_bool (type_of e) then Some (bool_nz e) else None)"

subsection \<open>Assignments within ranges, sound simplifiers\<close>

text \<open>
  An assignment is within the ranges when every variable with a range has an integer
  value between the minimum (inclusive) and the minimum plus the extent (exclusive). A
  simplifier is sound when it keeps the value of every expression that has one, under
  every assignment within the ranges bound to it.
\<close>

fun zero_like :: "val \<Rightarrow> val" where
  "zero_like (VInt i) = VInt 0"
| "zero_like (VBool p) = VBool False"

definition in_range :: "env \<Rightarrow> var \<Rightarrow> range \<Rightarrow> bool" where
  "in_range E v r =
     (case (var_val E v, eval E (range_min r), eval E (extent r)) of
        (VInt x, Some (VInt lo), Some (VInt n)) \<Rightarrow> lo \<le> x \<and> x < lo + n
      | _ \<Rightarrow> False)"

definition within_ranges :: "env \<Rightarrow> (var \<rightharpoonup> range) \<Rightarrow> bool" where
  "within_ranges E vranges = (\<forall>v r. vranges v = Some r \<longrightarrow> in_range E v r)"

definition analyzer_sound :: "analyzer \<Rightarrow> bool" where
  "analyzer_sound an =
     (\<forall>vranges E e v. within_ranges E vranges \<longrightarrow> eval E e = Some v \<longrightarrow>
        eval E (rewrite_simplify an vranges e) = Some v \<and>
        eval E (canonical_simplify an vranges e) = Some v)"



text \<open>
  The expressions on which every node that the functor is dispatched on has a case. The
  functor is not dispatched on a boolean expression, on the condition of a
  \<^verbatim>\<open>Select\<close> or of an \<^verbatim>\<open>if_then_else\<close>, on a divisor, nor on the arguments of
  another call.
\<close>

fun nz_supported :: "expr \<Rightarrow> bool" where
  "nz_supported (Cast t a) = (is_bool t \<or> nz_supported a)"
| "nz_supported (Arith opr a b) =
     (is_bool (type_of a) \<or>
      (if opr = Div \<or> opr = Mod \<or> opr = FloorDiv \<or> opr = FloorMod then nz_supported a
       else nz_supported a \<and> nz_supported b))"
| "nz_supported (Select c t f) = (is_bool (type_of t) \<or> nz_supported t \<and> nz_supported f)"
| "nz_supported (Call t n args) =
     (is_bool t \<or> n \<noteq> ''tvm_if_then_else'' \<or>
      (case args of
         [cond, true_val, false_val] \<Rightarrow> nz_supported true_val \<and> nz_supported false_val
       | _ \<Rightarrow> True))"
| "nz_supported (LetE v a b) = is_bool (type_of b)"
| "nz_supported (Load t buf i p) = is_bool t"
| "nz_supported (Ramp base stride lanes) = is_bool (type_of base)"
| "nz_supported (Broadcast a lanes) = is_bool (type_of a)"
| "nz_supported (Shuffle vectors indices) = is_bool (type_of (Shuffle vectors indices))"
| "nz_supported (Reduce combiner source axis cond value_index) =
     is_bool (type_of (Reduce combiner source axis cond value_index))"
| "nz_supported e = True"

text \<open>The analyzer that rewrites nothing: the simplest sound one.\<close>

definition id_analyzer :: analyzer where
  "id_analyzer = \<lparr>rewrite_simplify = (\<lambda>vranges e. e), canonical_simplify = (\<lambda>vranges e. e)\<rparr>"

section \<open>Factoring out atomic formulas\<close>

text \<open>
  \<^verbatim>\<open>FactorOutAtomicFormulasFunctor\<close> (lines 727-855). The sets of atomic formulas are
  vectors sorted by \<^verbatim>\<open>ExprLess\<close>, the deep comparison of expressions, which is not
  part of the files at hand and is a parameter. The three merges are those of the C++
  standard library on sorted ranges.
\<close>

fun set_union :: "(expr \<Rightarrow> expr \<Rightarrow> bool) \<Rightarrow> expr list \<Rightarrow> expr list \<Rightarrow> expr list" where
  "set_union expr_less [] ys = ys"
| "set_union expr_less (x # xs) [] = x # xs"
| "set_union expr_less (x # xs) (y # ys) =
     (if expr_less y x then y # set_union expr_less (x # xs) ys
      else if \<not> expr_less x y then x # set_union expr_less xs ys
      else x # set_union expr_less xs (y # ys))"

fun set_intersection :: "(expr \<Rightarrow> expr \<Rightarrow> bool) \<Rightarrow> expr list \<Rightarrow> expr list \<Rightarrow> expr list" where
  "set_intersection expr_less [] ys = []"
| "set_intersection expr_less (x # xs) [] = []"
| "set_intersection expr_less (x # xs) (y # ys) =
     (if expr_less x y then set_intersection expr_less xs (y # ys)
      else if \<not> expr_less y x then x # set_intersection expr_less xs ys
      else set_intersection expr_less (x # xs) ys)"

fun set_difference :: "(expr \<Rightarrow> expr \<Rightarrow> bool) \<Rightarrow> expr list \<Rightarrow> expr list \<Rightarrow> expr list" where
  "set_difference expr_less [] ys = []"
| "set_difference expr_less (x # xs) [] = x # xs"
| "set_difference expr_less (x # xs) (y # ys) =
     (if expr_less x y then x # set_difference expr_less xs (y # ys)
      else if \<not> expr_less y x then set_difference expr_less xs ys
      else set_difference expr_less (x # xs) ys)"

text \<open>
  The result and its two readings: \<^verbatim>\<open>to_expr\<close> conjoins the atomic formulas onto
  the residual one after the other, with \<^verbatim>\<open>And::make\<close>.
\<close>

record FactorOutAtomicFormulasResult =
  atomic_formulas :: "expr list"
  rest :: expr

definition FactorOut_to_expr :: "FactorOutAtomicFormulasResult \<Rightarrow> expr" where
  "FactorOut_to_expr r = foldl (\<lambda>res e. And e res) (rest r) (atomic_formulas r)"

definition FactorOut_to_array :: "FactorOutAtomicFormulasResult \<Rightarrow> expr list" where
  "FactorOut_to_array r = atomic_formulas r @ [rest r]"

definition Atomic :: "expr \<Rightarrow> FactorOutAtomicFormulasResult" where
  "Atomic e = \<lparr>atomic_formulas = [e], rest = make_const (type_of e) 1\<rparr>"

definition VisitAnd ::
  "(expr \<Rightarrow> expr \<Rightarrow> bool) \<Rightarrow> FactorOutAtomicFormulasResult \<Rightarrow> FactorOutAtomicFormulasResult \<Rightarrow>
   FactorOutAtomicFormulasResult" where
  "VisitAnd expr_less res_a res_b =
     \<lparr>atomic_formulas = set_union expr_less (atomic_formulas res_a) (atomic_formulas res_b),
      rest = And (rest res_a) (rest res_b)\<rparr>"

definition VisitOr ::
  "(expr \<Rightarrow> expr \<Rightarrow> bool) \<Rightarrow> FactorOutAtomicFormulasResult \<Rightarrow> FactorOutAtomicFormulasResult \<Rightarrow>
   FactorOutAtomicFormulasResult" where
  "VisitOr expr_less res_a res_b =
     (let res = set_intersection expr_less (atomic_formulas res_a) (atomic_formulas res_b);
          new_cond_a = set_difference expr_less (atomic_formulas res_a) res;
          new_cond_b = set_difference expr_less (atomic_formulas res_b) res;
          res_a' = res_a\<lparr>atomic_formulas := new_cond_a\<rparr>;
          res_b' = res_b\<lparr>atomic_formulas := new_cond_b\<rparr>;
          new_rest = Or (FactorOut_to_expr res_a') (FactorOut_to_expr res_b')
      in \<lparr>atomic_formulas = res, rest = new_rest\<rparr>)"

text \<open>
  The functor revisits the expression that it has rewritten, so the recursion is not
  structural; this measure decreases along it.
\<close>

fun msz :: "expr \<Rightarrow> nat" where
  "msz (And a b) = msz a + msz b + 1"
| "msz (Or a b) = msz a + msz b + 1"
| "msz (NotE a) = 2 * msz a"
| "msz (Select c t f) = 3 * msz c + msz t + msz f + 4"
| "msz (Arith opr a b) = msz a + msz b + 2"
| "msz e = 1"

text \<open>
  The functor has cases for variables, calls, integer literals, comparisons,
  \<^verbatim>\<open>Select\<close>, \<^verbatim>\<open>Not\<close>, \<^verbatim>\<open>And\<close>, \<^verbatim>\<open>Mul\<close> and \<^verbatim>\<open>Or\<close>. It has none
  for the remaining node kinds and does not override the default of the dispatch, which
  is a fatal error: there the function aborts, which is the result \<^term>\<open>None\<close>.
  The operand of a \<^verbatim>\<open>Not\<close> is dispatched on only where it is an \<^verbatim>\<open>Or\<close>, an
  \<^verbatim>\<open>And\<close> or a \<^verbatim>\<open>Select\<close> (lines 773-787).
\<close>

function (sequential) VisitExpr ::
  "(expr \<Rightarrow> expr \<Rightarrow> bool) \<Rightarrow> expr \<Rightarrow> FactorOutAtomicFormulasResult option" where
  "VisitExpr expr_less (Variable v) = Some (Atomic (Variable v))"
| "VisitExpr expr_less (Call t n args) = Some (Atomic (Call t n args))"
| "VisitExpr expr_less (IntImm t i) = Some (Atomic (IntImm t i))"
| "VisitExpr expr_less (UIntImm t n) = Some (Atomic (UIntImm t n))"
| "VisitExpr expr_less (Cmp opr a b) = Some (Atomic (Cmp opr a b))"
| "VisitExpr expr_less (Select c t f) = VisitExpr expr_less (Or (And c t) (And (NotE c) f))"
| "VisitExpr expr_less (NotE (Or a b)) = VisitExpr expr_less (And (NotE a) (NotE b))"
| "VisitExpr expr_less (NotE (And a b)) = VisitExpr expr_less (Or (NotE a) (NotE b))"
| "VisitExpr expr_less (NotE (Select c t f)) =
     VisitExpr expr_less (And (Or (NotE c) (NotE t)) (Or c (NotE f)))"
| "VisitExpr expr_less (NotE a) = Some (Atomic (NotE a))"
| "VisitExpr expr_less (And a b) =
     (case VisitExpr expr_less a of
        None \<Rightarrow> None
      | Some res_a \<Rightarrow>
          (case VisitExpr expr_less b of
             None \<Rightarrow> None
           | Some res_b \<Rightarrow> Some (VisitAnd expr_less res_a res_b)))"
| "VisitExpr expr_less (Arith Mul a b) = VisitExpr expr_less (And a b)"
| "VisitExpr expr_less (Or a b) =
     (case VisitExpr expr_less a of
        None \<Rightarrow> None
      | Some res_a \<Rightarrow>
          (case VisitExpr expr_less b of
             None \<Rightarrow> None
           | Some res_b \<Rightarrow> Some (VisitOr expr_less res_a res_b)))"
| "VisitExpr expr_less e = None"
  by pat_completeness auto

termination
  by (relation "measure (\<lambda>(expr_less, e). msz e)") auto

text \<open>\<^verbatim>\<open>FactorOutAtomicFormulas\<close> (lines 852-855) checks that the expression is boolean.\<close>

definition FactorOutAtomicFormulas ::
  "(expr \<Rightarrow> expr \<Rightarrow> bool) \<Rightarrow> expr \<Rightarrow> FactorOutAtomicFormulasResult option" where
  "FactorOutAtomicFormulas expr_less e =
     (if \<not> is_bool (type_of e) then None else VisitExpr expr_less e)"

subsection \<open>What the properties of the factorization are stated with\<close>

text \<open>The deep comparison is a strict linear order on expressions.\<close>

definition strict_linear_order :: "(expr \<Rightarrow> expr \<Rightarrow> bool) \<Rightarrow> bool" where
  "strict_linear_order expr_less =
     ((\<forall>a. \<not> expr_less a a) \<and>
      (\<forall>a b c. expr_less a b \<longrightarrow> expr_less b c \<longrightarrow> expr_less a c) \<and>
      (\<forall>a b. a \<noteq> b \<longrightarrow> expr_less a b \<or> expr_less b a))"

text \<open>
  The value of a conjunction of a set of formulas with a residual: none unless every
  formula and the residual have a boolean value.
\<close>

definition defd :: "env \<Rightarrow> expr set \<Rightarrow> bool" where
  "defd E A = (\<forall>a \<in> A. \<exists>p. eval E a = Some (VBool p))"

definition holds :: "env \<Rightarrow> expr set \<Rightarrow> bool" where
  "holds E A = (\<forall>a \<in> A. eval E a = Some (VBool True))"

definition fo_val :: "env \<Rightarrow> expr set \<Rightarrow> expr \<Rightarrow> val option" where
  "fo_val E A r =
     (case eval E r of
        Some (VBool q) \<Rightarrow> if defd E A then Some (VBool (q \<and> holds E A)) else None
      | _ \<Rightarrow> None)"

text \<open>
  The formulas that the functor returns as atomic: variables, calls, integer literals,
  comparisons, and the negation of anything but a disjunction, a conjunction or a
  \<^verbatim>\<open>Select\<close>.
\<close>

fun is_atomic :: "expr \<Rightarrow> bool" where
  "is_atomic (Variable v) = True"
| "is_atomic (Call t n args) = True"
| "is_atomic (IntImm t i) = True"
| "is_atomic (UIntImm t n) = True"
| "is_atomic (Cmp opr a b) = True"
| "is_atomic (NotE (Or a b)) = False"
| "is_atomic (NotE (And a b)) = False"
| "is_atomic (NotE (Select c t f)) = False"
| "is_atomic (NotE a) = True"
| "is_atomic e = False"

text \<open>
  The expressions on which every node that the functor is dispatched on has a case;
  \<open>supported_neg a\<close> says so of the negation of \<open>a\<close>.
\<close>

fun supported :: "expr \<Rightarrow> bool" and supported_neg :: "expr \<Rightarrow> bool" where
  "supported (Variable v) = True"
| "supported (Call t n args) = True"
| "supported (IntImm t i) = True"
| "supported (UIntImm t n) = True"
| "supported (Cmp opr a b) = True"
| "supported (Select c t f) = (supported c \<and> supported t \<and> supported_neg c \<and> supported f)"
| "supported (NotE a) = supported_neg a"
| "supported (And a b) = (supported a \<and> supported b)"
| "supported (Arith opr a b) = (opr = Mul \<and> supported a \<and> supported b)"
| "supported (Or a b) = (supported a \<and> supported b)"
| "supported e = False"
| "supported_neg (Or a b) = (supported_neg a \<and> supported_neg b)"
| "supported_neg (And a b) = (supported_neg a \<and> supported_neg b)"
| "supported_neg (Select c t f) =
     (supported_neg c \<and> supported_neg t \<and> supported c \<and> supported_neg f)"
| "supported_neg e = True"

definition fo_ok :: "(expr \<Rightarrow> expr \<Rightarrow> bool) \<Rightarrow> expr \<Rightarrow> FactorOutAtomicFormulasResult \<Rightarrow> bool" where
  "fo_ok lt e r =
     (sorted_wrt lt (atomic_formulas r) \<and> (\<forall>a \<in> set (atomic_formulas r). is_atomic a) \<and>
      is_bool (type_of (rest r)) \<and> (\<forall>E. eval E (FactorOut_to_expr r) = eval E e))"

text \<open>A strict linear order on expressions, from an enumeration of them.\<close>

instance dtype :: countable
  by countable_datatype

instance var :: countable
  by countable_datatype

instance arith_op :: countable
  by countable_datatype

instance cmp_op :: countable
  by countable_datatype

instance expr :: countable
  by countable_datatype

definition rank_less :: "expr \<Rightarrow> expr \<Rightarrow> bool" where
  "rank_less a b = (to_nat a < to_nat b)"

section \<open>Elimination of divisions and modulos by constants\<close>

text \<open>
  \<^verbatim>\<open>EliminateDivMod\<close> (lines 965-1225), with \<^verbatim>\<open>DivMode\<close>, \<^verbatim>\<open>ModImpl\<close> and
  \<^verbatim>\<open>DivImpl\<close> (lines 974-997).
\<close>

datatype DivMode = kTruncDiv | kFloorDiv

fun ModImpl :: "expr \<Rightarrow> expr \<Rightarrow> DivMode \<Rightarrow> expr" where
  "ModImpl a b kTruncDiv = truncmod a b"
| "ModImpl a b kFloorDiv = floormod a b"

fun DivImpl :: "expr \<Rightarrow> expr \<Rightarrow> DivMode \<Rightarrow> expr" where
  "DivImpl a b kTruncDiv = truncdiv a b"
| "DivImpl a b kFloorDiv = floordiv a b"

text \<open>\<^verbatim>\<open>std::to_string\<close> on a counter: its decimal digits.\<close>

definition digit_char :: "nat \<Rightarrow> char" where
  "digit_char d = char_of (of_char CHR ''0'' + d)"

function to_string :: "nat \<Rightarrow> string" where
  "to_string n = (if n < 10 then [digit_char n] else to_string (n div 10) @ [digit_char (n mod 10)])"
  by pat_completeness auto
termination
  by (relation "measure id") auto

text \<open>
  The mutator (lines 999-1212) is an object whose fields the visit updates; the model
  passes it along as a record. \<^verbatim>\<open>LOG(WARNING)\<close> appends to \<open>warnings\<close>. The map
  \<^verbatim>\<open>expr_to_vars_\<close> compares its keys deeply. The counter \<^verbatim>\<open>idx_\<close> is a
  natural number.
\<close>

datatype warning =
    WontEliminate expr
  | CannotFullyEliminate expr

record EliminateDivModMutator =
  substitution :: "var \<rightharpoonup> expr"
  new_variables :: "var list"
  conditions :: "expr list"
  ranges :: "var \<rightharpoonup> range"
  idx :: nat
  expr_to_vars :: "DivMode \<times> expr \<times> int \<rightharpoonup> var \<times> var"
  warnings :: "warning list"

record EliminateDivModResult =
  res_expr :: expr
  res_substitution :: "var \<rightharpoonup> expr"
  res_new_variables :: "var list"
  res_conditions :: "expr list"
  res_ranges :: "var \<rightharpoonup> range"

text \<open>
  \<^verbatim>\<open>AddNewVarPair\<close> (lines 1115-1186). The range evaluator
  (\<^verbatim>\<open>EvalSet(e, ranges).cover_range(Range())\<close>) is not part of the files at hand and is
  the parameter \<open>cover_range\<close>; it returns \<^term>\<open>None\<close> for the undefined range.
  \<open>CreateVarPair\<close> is the second half of the function (lines 1154-1185), entered
  with the counter already incremented and both ranges inferred.
\<close>

definition CreateVarPair ::
  "analyzer \<Rightarrow> (expr \<Rightarrow> expr \<Rightarrow> bool) \<Rightarrow> expr \<Rightarrow> expr \<Rightarrow> int \<Rightarrow> DivMode \<Rightarrow> range \<Rightarrow> range \<Rightarrow>
   EliminateDivModMutator \<Rightarrow> (var \<times> var) option \<times> EliminateDivModMutator" where
  "CreateVarPair an same_as e mut c mode div_range mod_range s1 =
     (let val_e = make_const (type_of e) c;
          div_v = Var ((if mode = kTruncDiv then ''tdiv'' else ''fdiv'') @ to_string (idx s1))
                      (type_of e);
          mod_v = Var ((if mode = kTruncDiv then ''tmod'' else ''fmod'') @ to_string (idx s1))
                      (type_of e);
          s2 = s1\<lparr>new_variables := new_variables s1 @ [div_v, mod_v]\<rparr>;
          s3 = s2\<lparr>substitution := (substitution s2)
                 (div_v \<mapsto> DivImpl (Substitute mut (substitution s2)) val_e mode)\<rparr>;
          s4 = s3\<lparr>substitution := (substitution s3)
                 (mod_v \<mapsto> ModImpl (Substitute mut (substitution s3)) val_e mode)\<rparr>;
          s5 = s4\<lparr>ranges := (ranges s4)(div_v \<mapsto> div_range, mod_v \<mapsto> mod_range)\<rparr>;
          s6 = s5\<lparr>conditions := conditions s5 @
                 [Cmp EQ mut (Arith Add (Arith Mul (Variable div_v) val_e) (Variable mod_v))]\<rparr>;
          s7 = (if \<not> CanProve an (Cmp LE (extent mod_range) val_e) Map.empty
                then s6\<lparr>warnings := warnings s6 @
                          [CannotFullyEliminate (ModImpl e val_e mode)],
                        conditions := conditions s6 @
                          [Select (Cmp GE e (make_const (type_of e) 0))
                                  (Cmp GE (Variable mod_v) (make_const (type_of e) 0))
                                  (Cmp LE (Variable mod_v) (make_const (type_of e) 0))]\<rparr>
                else s6);
          p = (div_v, mod_v);
          s8 = s7\<lparr>expr_to_vars := (expr_to_vars s7)((mode, e, c) \<mapsto> p)\<rparr>;
          s9 = (if \<not> same_as e mut
                then s8\<lparr>expr_to_vars := (expr_to_vars s8)((mode, mut, c) \<mapsto> p)\<rparr>
                else s8)
      in (Some p, s9))"

definition AddNewVarPair ::
  "analyzer \<Rightarrow> (expr \<Rightarrow> (var \<rightharpoonup> range) \<Rightarrow> range option) \<Rightarrow> (expr \<Rightarrow> expr \<Rightarrow> bool) \<Rightarrow>
   expr \<Rightarrow> expr \<Rightarrow> int \<Rightarrow> DivMode \<Rightarrow> EliminateDivModMutator \<Rightarrow>
   (var \<times> var) option \<times> EliminateDivModMutator" where
  "AddNewVarPair an cover_range same_as e mut c mode s =
     (case (if same_as e mut then None else expr_to_vars s (mode, mut, c)) of
        Some p \<Rightarrow> (Some p, s)
      | None \<Rightarrow>
          (case (cover_range (DivImpl mut (make_const (type_of e) c) mode) (ranges s),
                 cover_range (ModImpl mut (make_const (type_of e) c) mode) (ranges s)) of
             (Some div_range, Some mod_range) \<Rightarrow>
               CreateVarPair an same_as e mut c mode div_range mod_range (s\<lparr>idx := idx s + 1\<rparr>)
           | _ \<Rightarrow>
               (None, s\<lparr>idx := idx s + 1,
                         warnings := warnings s @
                           [WontEliminate (DivImpl e (make_const (type_of e) c) mode)]\<rparr>)))"

text \<open>
  The visit (lines 1009-1112). A divisor is taken apart only where it is a nonzero
  integer literal. A negative divisor is rewritten and the result visited again, so the
  recursion is not structural; the measure \<open>msz_dm\<close> decreases along it, since it
  weighs a negative literal more than the nodes that the rewriting adds. The cases that
  the mutator does not override are those of \<^verbatim>\<open>IRMutator\<close>, which is not part of the
  files at hand: every child is visited, from left to right, and the node is built
  again. Where the source visits both operands inside the argument list of one call
  (lines 1032, 1058, 1084 and 1111), C++ leaves the order open; the parameter
  \<open>left_first\<close> chooses it.
\<close>

fun msz_dm :: "expr \<Rightarrow> nat" where
  "msz_dm (IntImm t i) = (if i < 0 then 10 else 1)"
| "msz_dm (Cast t e) = Suc (msz_dm e)"
| "msz_dm (Arith opr a b) = Suc (msz_dm a + msz_dm b)"
| "msz_dm (Cmp opr a b) = Suc (msz_dm a + msz_dm b)"
| "msz_dm (And a b) = Suc (msz_dm a + msz_dm b)"
| "msz_dm (Or a b) = Suc (msz_dm a + msz_dm b)"
| "msz_dm (NotE a) = Suc (msz_dm a)"
| "msz_dm (Select c t f) = Suc (msz_dm c + msz_dm t + msz_dm f)"
| "msz_dm (Call t n args) = Suc (sum_list (map (\<lambda>a. Suc (msz_dm a)) args))"
| "msz_dm (LetE v a b) = Suc (msz_dm a + msz_dm b)"
| "msz_dm (Load t buf i p) = Suc (msz_dm i + msz_dm p)"
| "msz_dm (Ramp base stride lanes) = Suc (msz_dm base + msz_dm stride)"
| "msz_dm (Broadcast a lanes) = Suc (msz_dm a)"
| "msz_dm (Shuffle vectors indices) = Suc (sum_list (map (\<lambda>a. Suc (msz_dm a)) vectors))"
| "msz_dm (Reduce combiner source axis cond value_index) =
     Suc (sum_list (map (\<lambda>(v, lo, ext). Suc (msz_dm lo + msz_dm ext)) axis) +
          sum_list (map (\<lambda>a. Suc (msz_dm a)) source) + msz_dm cond)"
| "msz_dm e = 1"

fun nonzero_imm :: "expr \<Rightarrow> int option" where
  "nonzero_imm (IntImm t c) = (if c \<noteq> 0 then Some c else None)"
| "nonzero_imm e = None"

type_synonym range_evaluator = "expr \<Rightarrow> (var \<rightharpoonup> range) \<Rightarrow> range option"

function (sequential)
  Mutate :: "analyzer \<Rightarrow> range_evaluator \<Rightarrow> (expr \<Rightarrow> expr \<Rightarrow> bool) \<Rightarrow> bool \<Rightarrow>
     expr \<Rightarrow> EliminateDivModMutator \<Rightarrow> expr \<times> EliminateDivModMutator"
  and Mutate_args :: "analyzer \<Rightarrow> range_evaluator \<Rightarrow> (expr \<Rightarrow> expr \<Rightarrow> bool) \<Rightarrow> bool \<Rightarrow>
     expr list \<Rightarrow> EliminateDivModMutator \<Rightarrow> expr list \<times> EliminateDivModMutator"
  and Mutate_axis :: "analyzer \<Rightarrow> range_evaluator \<Rightarrow> (expr \<Rightarrow> expr \<Rightarrow> bool) \<Rightarrow> bool \<Rightarrow>
     expr iter_var list \<Rightarrow> EliminateDivModMutator \<Rightarrow>
     expr iter_var list \<times> EliminateDivModMutator"
where
  "Mutate an cr sa lf (Arith Div a b) s =
     (case nonzero_imm b of
        Some c \<Rightarrow>
          (if c < 0 then
             (case Mutate an cr sa lf (truncdiv a (make_const (type_of a) (- c))) s of
                (m, s1) \<Rightarrow> (Arith Sub (make_zero (type_of a)) m, s1))
           else
             (case expr_to_vars s (kTruncDiv, a, c) of
                Some p \<Rightarrow> (Variable (fst p), s)
              | None \<Rightarrow>
                  (case Mutate an cr sa lf a s of
                     (mutated_a, s1) \<Rightarrow>
                       (case AddNewVarPair an cr sa a mutated_a c kTruncDiv s1 of
                          (Some p, s2) \<Rightarrow> (Variable (fst p), s2)
                        | (None, s2) \<Rightarrow> (truncdiv mutated_a b, s2)))))
      | None \<Rightarrow>
          (if lf then
             (case Mutate an cr sa lf a s of
                (ma, s1) \<Rightarrow>
                  (case Mutate an cr sa lf b s1 of (mb, s2) \<Rightarrow> (truncdiv ma mb, s2)))
           else
             (case Mutate an cr sa lf b s of
                (mb, s1) \<Rightarrow>
                  (case Mutate an cr sa lf a s1 of (ma, s2) \<Rightarrow> (truncdiv ma mb, s2)))))"
| "Mutate an cr sa lf (Arith Mod a b) s =
     (case nonzero_imm b of
        Some c \<Rightarrow>
          (if c < 0 then
             Mutate an cr sa lf (truncmod a (make_const (type_of a) (- c))) s
           else
             (case expr_to_vars s (kTruncDiv, a, c) of
                Some p \<Rightarrow> (Variable (snd p), s)
              | None \<Rightarrow>
                  (case Mutate an cr sa lf a s of
                     (mutated_a, s1) \<Rightarrow>
                       (case AddNewVarPair an cr sa a mutated_a c kTruncDiv s1 of
                          (Some p, s2) \<Rightarrow> (Variable (snd p), s2)
                        | (None, s2) \<Rightarrow> (truncmod mutated_a b, s2)))))
      | None \<Rightarrow>
          (if lf then
             (case Mutate an cr sa lf a s of
                (ma, s1) \<Rightarrow>
                  (case Mutate an cr sa lf b s1 of (mb, s2) \<Rightarrow> (truncmod ma mb, s2)))
           else
             (case Mutate an cr sa lf b s of
                (mb, s1) \<Rightarrow>
                  (case Mutate an cr sa lf a s1 of (ma, s2) \<Rightarrow> (truncmod ma mb, s2)))))"
| "Mutate an cr sa lf (Arith FloorDiv a b) s =
     (case nonzero_imm b of
        Some c \<Rightarrow>
          (if c < 0 then
             Mutate an cr sa lf
               (floordiv (Arith Sub (make_zero (type_of a)) a) (make_const (type_of a) (- c))) s
           else
             (case expr_to_vars s (kFloorDiv, a, c) of
                Some p \<Rightarrow> (Variable (fst p), s)
              | None \<Rightarrow>
                  (case Mutate an cr sa lf a s of
                     (mutated_a, s1) \<Rightarrow>
                       (case AddNewVarPair an cr sa a mutated_a c kFloorDiv s1 of
                          (Some p, s2) \<Rightarrow> (Variable (fst p), s2)
                        | (None, s2) \<Rightarrow> (floordiv mutated_a b, s2)))))
      | None \<Rightarrow>
          (if lf then
             (case Mutate an cr sa lf a s of
                (ma, s1) \<Rightarrow>
                  (case Mutate an cr sa lf b s1 of (mb, s2) \<Rightarrow> (floordiv ma mb, s2)))
           else
             (case Mutate an cr sa lf b s of
                (mb, s1) \<Rightarrow>
                  (case Mutate an cr sa lf a s1 of (ma, s2) \<Rightarrow> (floordiv ma mb, s2)))))"
| "Mutate an cr sa lf (Arith FloorMod a b) s =
     (case nonzero_imm b of
        Some c \<Rightarrow>
          (if c < 0 then
             Mutate an cr sa lf
               (Arith Sub (make_zero (type_of a))
                  (floormod (Arith Sub (make_zero (type_of a)) a) (make_const (type_of a) (- c)))) s
           else
             (case expr_to_vars s (kFloorDiv, a, c) of
                Some p \<Rightarrow> (Variable (snd p), s)
              | None \<Rightarrow>
                  (case Mutate an cr sa lf a s of
                     (mutated_a, s1) \<Rightarrow>
                       (case AddNewVarPair an cr sa a mutated_a c kFloorDiv s1 of
                          (Some p, s2) \<Rightarrow> (Variable (snd p), s2)
                        | (None, s2) \<Rightarrow> (floormod mutated_a b, s2)))))
      | None \<Rightarrow>
          (if lf then
             (case Mutate an cr sa lf a s of
                (ma, s1) \<Rightarrow>
                  (case Mutate an cr sa lf b s1 of (mb, s2) \<Rightarrow> (floormod ma mb, s2)))
           else
             (case Mutate an cr sa lf b s of
                (mb, s1) \<Rightarrow>
                  (case Mutate an cr sa lf a s1 of (ma, s2) \<Rightarrow> (floormod ma mb, s2)))))"
| "Mutate an cr sa lf (Arith opr a b) s =
     (case Mutate an cr sa lf a s of
        (ma, s1) \<Rightarrow> (case Mutate an cr sa lf b s1 of (mb, s2) \<Rightarrow> (Arith opr ma mb, s2)))"
| "Mutate an cr sa lf (Cmp opr a b) s =
     (case Mutate an cr sa lf a s of
        (ma, s1) \<Rightarrow> (case Mutate an cr sa lf b s1 of (mb, s2) \<Rightarrow> (Cmp opr ma mb, s2)))"
| "Mutate an cr sa lf (And a b) s =
     (case Mutate an cr sa lf a s of
        (ma, s1) \<Rightarrow> (case Mutate an cr sa lf b s1 of (mb, s2) \<Rightarrow> (And ma mb, s2)))"
| "Mutate an cr sa lf (Or a b) s =
     (case Mutate an cr sa lf a s of
        (ma, s1) \<Rightarrow> (case Mutate an cr sa lf b s1 of (mb, s2) \<Rightarrow> (Or ma mb, s2)))"
| "Mutate an cr sa lf (NotE a) s =
     (case Mutate an cr sa lf a s of (ma, s1) \<Rightarrow> (NotE ma, s1))"
| "Mutate an cr sa lf (Cast t a) s =
     (case Mutate an cr sa lf a s of (ma, s1) \<Rightarrow> (Cast t ma, s1))"
| "Mutate an cr sa lf (Select c t f) s =
     (case Mutate an cr sa lf c s of
        (mc, s1) \<Rightarrow> (case Mutate an cr sa lf t s1 of
           (mt, s2) \<Rightarrow> (case Mutate an cr sa lf f s2 of (mf, s3) \<Rightarrow> (Select mc mt mf, s3))))"
| "Mutate an cr sa lf (Call t n args) s =
     (case Mutate_args an cr sa lf args s of (margs, s1) \<Rightarrow> (Call t n margs, s1))"
| "Mutate an cr sa lf (LetE v a b) s =
     (case Mutate an cr sa lf a s of
        (ma, s1) \<Rightarrow> (case Mutate an cr sa lf b s1 of (mb, s2) \<Rightarrow> (LetE v ma mb, s2)))"
| "Mutate an cr sa lf (Load t buf i p) s =
     (case Mutate an cr sa lf i s of
        (mi, s1) \<Rightarrow> (case Mutate an cr sa lf p s1 of (mp, s2) \<Rightarrow> (Load t buf mi mp, s2)))"
| "Mutate an cr sa lf (Ramp base stride lanes) s =
     (case Mutate an cr sa lf base s of
        (mb, s1) \<Rightarrow>
          (case Mutate an cr sa lf stride s1 of (ms, s2) \<Rightarrow> (Ramp mb ms lanes, s2)))"
| "Mutate an cr sa lf (Broadcast a lanes) s =
     (case Mutate an cr sa lf a s of (ma, s1) \<Rightarrow> (Broadcast ma lanes, s1))"
| "Mutate an cr sa lf (Shuffle vectors indices) s =
     (case Mutate_args an cr sa lf vectors s of (mv, s1) \<Rightarrow> (Shuffle mv indices, s1))"
| "Mutate an cr sa lf (Reduce combiner source axis cond value_index) s =
     (case Mutate_axis an cr sa lf axis s of
        (maxis, s1) \<Rightarrow>
          (case Mutate_args an cr sa lf source s1 of
             (msource, s2) \<Rightarrow>
               (case Mutate an cr sa lf cond s2 of
                  (mcond, s3) \<Rightarrow> (Reduce combiner msource maxis mcond value_index, s3))))"
| "Mutate an cr sa lf (Variable v) s = (Variable v, s)"
| "Mutate an cr sa lf (IntImm t i) s = (IntImm t i, s)"
| "Mutate an cr sa lf (UIntImm t n) s = (UIntImm t n, s)"
| "Mutate an cr sa lf (FloatImm t r) s = (FloatImm t r, s)"
| "Mutate an cr sa lf (StringImm x) s = (StringImm x, s)"
| "Mutate_args an cr sa lf [] s = ([], s)"
| "Mutate_args an cr sa lf (x # xs) s =
     (case Mutate an cr sa lf x s of
        (mx, s1) \<Rightarrow> (case Mutate_args an cr sa lf xs s1 of (mxs, s2) \<Rightarrow> (mx # mxs, s2)))"
| "Mutate_axis an cr sa lf [] s = ([], s)"
| "Mutate_axis an cr sa lf ((v, lo, ext) # xs) s =
     (case Mutate an cr sa lf lo s of
        (mlo, s1) \<Rightarrow>
          (case Mutate an cr sa lf ext s1 of
             (mext, s2) \<Rightarrow>
               (case Mutate_axis an cr sa lf xs s2 of
                  (mxs, s3) \<Rightarrow> ((v, mlo, mext) # mxs, s3))))"
  by pat_completeness auto

termination
proof -
  have c: "msz_dm (make_const t v) = 1" if "0 \<le> v" for t v
    using that by (cases t) auto
  have n: "msz_dm b = 10" if "nonzero_imm b = Some c" and "c < 0" for b c
    using that by (cases b) (auto split: if_splits)
  show ?thesis
    by (relation "measure (\<lambda>x. case x of
            Inl (an, cr, sa, lf, e, s) \<Rightarrow> msz_dm e
          | Inr (Inl (an, cr, sa, lf, es, s)) \<Rightarrow> sum_list (map (\<lambda>a. Suc (msz_dm a)) es)
          | Inr (Inr (an, cr, sa, lf, ax, s)) \<Rightarrow>
              sum_list (map (\<lambda>(v, lo, ext). Suc (msz_dm lo + msz_dm ext)) ax))")
       (auto simp: truncdiv_def truncmod_def floordiv_def floormod_def make_zero_def c n)
qed

text \<open>\<^verbatim>\<open>EliminateDivMod\<close> (lines 1216-1225) runs a new mutator on the expression.\<close>

definition initial_mutator :: "(var \<rightharpoonup> range) \<Rightarrow> EliminateDivModMutator" where
  "initial_mutator rs =
     \<lparr>substitution = Map.empty, new_variables = [], conditions = [],
      ranges = rs, idx = 0, expr_to_vars = Map.empty, warnings = []\<rparr>"

definition EliminateDivMod ::
  "analyzer \<Rightarrow> range_evaluator \<Rightarrow> (expr \<Rightarrow> expr \<Rightarrow> bool) \<Rightarrow> bool \<Rightarrow>
   expr \<Rightarrow> (var \<rightharpoonup> range) \<Rightarrow> EliminateDivModResult" where
  "EliminateDivMod an cr sa lf e rs =
     (case Mutate an cr sa lf e (initial_mutator rs) of
        (r, m) \<Rightarrow> \<lparr>res_expr = r, res_substitution = substitution m,
                    res_new_variables = new_variables m, res_conditions = conditions m,
                    res_ranges = ranges m\<rparr>)"

text \<open>The division mode of a division or modulo node.\<close>

definition mode_of :: "arith_op \<Rightarrow> DivMode" where
  "mode_of opr = (if opr = Div \<or> opr = Mod then kTruncDiv else kFloorDiv)"

section \<open>Domains and their transformations\<close>

text \<open>
  A \<^verbatim>\<open>Domain\<close> (\<^verbatim>\<open>DomainNode::make\<close>, lines 2557-2565) has the fields
  \<^verbatim>\<open>variables\<close>, \<^verbatim>\<open>conditions\<close> and \<^verbatim>\<open>ranges\<close>; a
  \<^verbatim>\<open>DomainTransformation\<close> (lines 2593-2603) has the two domains and the two maps.
\<close>

record domain =
  dom_variables :: "var list"
  dom_conditions :: "expr list"
  dom_ranges :: "var \<rightharpoonup> range"

record DomainTransformation =
  new_domain :: domain
  old_domain :: domain
  new_to_old :: "var \<rightharpoonup> expr"
  old_to_new :: "var \<rightharpoonup> expr"


text \<open>\<^verbatim>\<open>EmptyDomainTransformation\<close> (lines 337-345) and \<^verbatim>\<open>IdDomainTransformation\<close> (lines 347-353).\<close>

definition EmptyDomainTransformation :: "domain \<Rightarrow> DomainTransformation" where
  "EmptyDomainTransformation d =
     \<lparr>new_domain = \<lparr>dom_variables = [], dom_conditions = [make_zero Bool_t],
                     dom_ranges = Map.empty\<rparr>,
      old_domain = d,
      new_to_old = Map.empty,
      old_to_new = fold (\<lambda>v m. m(v \<mapsto> make_zero (vtype v))) (dom_variables d) Map.empty\<rparr>"


text \<open>
  The conditions of the existence of a solution (\<^verbatim>\<open>SolveSystemOfEquations\<close>, lines
  1589-1611), computed from the matrix and the right-hand sides that the
  diagonalization leaves. \<open>row_condition\<close> is the condition of row \<open>j\<close> before it is
  simplified. The loop returns from the function with the empty transformation as soon
  as a condition simplifies to the literal \<open>0\<close> (\<^term>\<open>Inl\<close>), and otherwise leaves
  the conditions that do not simplify to the literal \<open>1\<close> (\<^term>\<open>Inr\<close>). Modelled
  from the spec: \<^verbatim>\<open>e == 0\<close> and \<^verbatim>\<open>floormod(e, c)\<close> on an expression and a number
  build the literal of the type of the expression.
\<close>

definition row_condition :: "nat \<Rightarrow> int list list \<Rightarrow> expr list \<Rightarrow> nat \<Rightarrow> expr" where
  "row_condition vars_size matrix rhs j =
     (if j \<ge> vars_size \<or> matrix ! j ! j = 0
      then Cmp EQ (rhs ! j) (make_const (type_of (rhs ! j)) 0)
      else Cmp EQ (floormod (rhs ! j) (make_const (type_of (rhs ! j)) \<bar>matrix ! j ! j\<bar>))
                  (make_const (type_of (rhs ! j)) 0))"

fun conditions_loop ::
  "analyzer \<Rightarrow> domain \<Rightarrow> nat \<Rightarrow> int list list \<Rightarrow> expr list \<Rightarrow> nat list \<Rightarrow> expr list \<Rightarrow>
   DomainTransformation + expr list" where
  "conditions_loop an d vars_size matrix rhs [] conds = Inr conds"
| "conditions_loop an d vars_size matrix rhs (j # js) conds =
     (let new_cond = SuperSimplify an (row_condition vars_size matrix rhs j) (dom_ranges d)
      in if is_const_int new_cond 0 then Inl (EmptyDomainTransformation d)
         else if \<not> is_const_int new_cond 1
         then conditions_loop an d vars_size matrix rhs js (conds @ [new_cond])
         else conditions_loop an d vars_size matrix rhs js conds)"

definition existence_conditions ::
  "analyzer \<Rightarrow> domain \<Rightarrow> int list list \<Rightarrow> expr list \<Rightarrow> DomainTransformation + expr list" where
  "existence_conditions an d matrix rhs =
     (let vars_size = length (dom_variables d);
          rhs1 = map (\<lambda>r. SuperSimplify an r (dom_ranges d)) rhs
      in conditions_loop an d vars_size matrix rhs1 [0..<length matrix] [])"


text \<open>
  The condition of row \<open>j\<close> as the loop leaves it: the row condition on the simplified
  right-hand sides, simplified.
\<close>

definition simplified_rhs :: "analyzer \<Rightarrow> domain \<Rightarrow> expr list \<Rightarrow> expr list" where
  "simplified_rhs an d rhs = map (\<lambda>r. SuperSimplify an r (dom_ranges d)) rhs"

definition emitted_condition ::
  "analyzer \<Rightarrow> domain \<Rightarrow> int list list \<Rightarrow> expr list \<Rightarrow> nat \<Rightarrow> expr" where
  "emitted_condition an d matrix rhs j =
     SuperSimplify an
       (row_condition (length (dom_variables d)) matrix (simplified_rhs an d rhs) j)
       (dom_ranges d)"

text \<open>An analyzer that knows one fact, \<open>1 == 0\<close> is false, and rewrites nothing else.\<close>

definition one_fact_analyzer :: analyzer where
  "one_fact_analyzer =
     \<lparr>rewrite_simplify =
        (\<lambda>vranges e. if e = Cmp EQ (IntImm (Int_t 32) 1) (IntImm (Int_t 32) 0)
                      then const_false else e),
      canonical_simplify = (\<lambda>vranges e. e)\<rparr>"

section \<open>Removal of redundant inequalities\<close>

text \<open>\<^verbatim>\<open>IterVarsToInequalities\<close> (lines 355-362).\<close>

definition IterVarsToInequalities :: "expr iter_var list \<Rightarrow> expr list" where
  "IterVarsToInequalities itervars =
     concat (map (\<lambda>(v, lo, ext). [Cmp GE (Variable v) lo, Cmp LT (Variable v) (Arith Add lo ext)])
               itervars)"

text \<open>
  \<^verbatim>\<open>RemoveRedundantInequalitiesMutator\<close> (lines 858-953). The mutator has one field,
  the known formulas, which its constructor simplifies; the visit does not change it,
  so the model passes it as an argument. \<^verbatim>\<open>HasSideEffect\<close> is not part of the files
  at hand and is the parameter \<open>has_side_effect\<close>; so is the deep comparison that
  \<^verbatim>\<open>FactorOutAtomicFormulas\<close> sorts with. \<^verbatim>\<open>Equal\<close> is the equality of
  expressions. Where \<^verbatim>\<open>FactorOutAtomicFormulas\<close> aborts, so does the visit
  (\<^term>\<open>None\<close>). The cases that the mutator does not override are those of
  \<^verbatim>\<open>IRMutator\<close>, which is not part of the files at hand: every child is visited and
  the node is built again. An \<^verbatim>\<open>if_then_else\<close> call has three arguments.
\<close>

definition RemoveRedundantInequalitiesMutator :: "analyzer \<Rightarrow> expr list \<Rightarrow> expr list" where
  "RemoveRedundantInequalitiesMutator an known =
     map (\<lambda>cond. SuperSimplify an cond Map.empty) known"

definition MutateAtomic :: "analyzer \<Rightarrow> expr list \<Rightarrow> expr \<Rightarrow> expr" where
  "MutateAtomic an known e =
     (let simplified = SuperSimplify an e Map.empty
      in if \<exists>other \<in> set known. simplified = other then const_true else simplified)"

fun MutateRRI ::
  "analyzer \<Rightarrow> (expr \<Rightarrow> bool) \<Rightarrow> (expr \<Rightarrow> expr \<Rightarrow> bool) \<Rightarrow> expr list \<Rightarrow> expr \<Rightarrow> expr option" where
  "MutateRRI an has_side_effect lt known (Select c t f) =
     (case MutateRRI an has_side_effect lt known c of
        None \<Rightarrow> None
      | Some mc \<Rightarrow>
          (let new_cond = SuperSimplify an mc Map.empty
           in if is_one new_cond \<and> \<not> has_side_effect (Select c t f)
              then MutateRRI an has_side_effect lt known t
              else if is_zero new_cond \<and> \<not> has_side_effect (Select c t f)
              then MutateRRI an has_side_effect lt known f
              else
                (case FactorOutAtomicFormulas lt new_cond of
                   None \<Rightarrow> None
                 | Some fo \<Rightarrow>
                     (case MutateRRI an has_side_effect lt
                             (RemoveRedundantInequalitiesMutator an (known @ atomic_formulas fo)) t of
                        None \<Rightarrow> None
                      | Some mt \<Rightarrow>
                          (case MutateRRI an has_side_effect lt known f of
                             None \<Rightarrow> None
                           | Some mf \<Rightarrow> Some (Select new_cond mt mf))))))"
| "MutateRRI an has_side_effect lt known (Call ty n args) =
     (case (n = ''tvm_if_then_else'', args) of
        (True, [c, t, f]) \<Rightarrow>
          (case MutateRRI an has_side_effect lt known c of
             None \<Rightarrow> None
           | Some mc \<Rightarrow>
               (let new_cond = SuperSimplify an mc Map.empty
                in if is_one new_cond then MutateRRI an has_side_effect lt known t
                   else if is_zero new_cond then MutateRRI an has_side_effect lt known f
                   else
                     (case FactorOutAtomicFormulas lt new_cond of
                        None \<Rightarrow> None
                      | Some fo \<Rightarrow>
                          (case MutateRRI an has_side_effect lt
                                  (RemoveRedundantInequalitiesMutator an
                                     (known @ atomic_formulas fo)) t of
                             None \<Rightarrow> None
                           | Some mt \<Rightarrow>
                               (case MutateRRI an has_side_effect lt known f of
                                  None \<Rightarrow> None
                                | Some mf \<Rightarrow> Some (if_then_else new_cond mt mf))))))
      | _ \<Rightarrow>
          map_option (Call ty n) (those (map (MutateRRI an has_side_effect lt known) args)))"
| "MutateRRI an has_side_effect lt known (Reduce combiner source axis cond value_index) =
     (let known_with_axes = known @ IterVarsToInequalities axis
      in case MutateRRI an has_side_effect lt
                (RemoveRedundantInequalitiesMutator an known_with_axes) cond of
           None \<Rightarrow> None
         | Some new_cond \<Rightarrow>
             (case FactorOutAtomicFormulas lt new_cond of
                None \<Rightarrow> None
              | Some fo \<Rightarrow>
                  (let new_known = known_with_axes @ atomic_formulas fo
                   in map_option (\<lambda>new_source. Reduce combiner new_source axis new_cond value_index)
                        (those (map (MutateRRI an has_side_effect lt
                                       (RemoveRedundantInequalitiesMutator an new_known))
                                  source)))))"
| "MutateRRI an has_side_effect lt known (Cmp opr a b) =
     Some (MutateAtomic an known (Cmp opr a b))"
| "MutateRRI an has_side_effect lt known (And a b) =
     (case MutateRRI an has_side_effect lt known a of
        None \<Rightarrow> None
      | Some ma \<Rightarrow> map_option (And ma) (MutateRRI an has_side_effect lt known b))"
| "MutateRRI an has_side_effect lt known (Or a b) =
     (case MutateRRI an has_side_effect lt known a of
        None \<Rightarrow> None
      | Some ma \<Rightarrow> map_option (Or ma) (MutateRRI an has_side_effect lt known b))"
| "MutateRRI an has_side_effect lt known (NotE a) =
     map_option NotE (MutateRRI an has_side_effect lt known a)"
| "MutateRRI an has_side_effect lt known (Arith opr a b) =
     (case MutateRRI an has_side_effect lt known a of
        None \<Rightarrow> None
      | Some ma \<Rightarrow> map_option (Arith opr ma) (MutateRRI an has_side_effect lt known b))"
| "MutateRRI an has_side_effect lt known (Cast ty a) =
     map_option (Cast ty) (MutateRRI an has_side_effect lt known a)"
| "MutateRRI an has_side_effect lt known (LetE v a b) =
     (case MutateRRI an has_side_effect lt known a of
        None \<Rightarrow> None
      | Some ma \<Rightarrow> map_option (LetE v ma) (MutateRRI an has_side_effect lt known b))"
| "MutateRRI an has_side_effect lt known (Load ty buf i p) =
     (case MutateRRI an has_side_effect lt known i of
        None \<Rightarrow> None
      | Some mi \<Rightarrow> map_option (Load ty buf mi) (MutateRRI an has_side_effect lt known p))"
| "MutateRRI an has_side_effect lt known (Ramp base stride lanes) =
     (case MutateRRI an has_side_effect lt known base of
        None \<Rightarrow> None
      | Some mb \<Rightarrow>
          map_option (\<lambda>ms. Ramp mb ms lanes) (MutateRRI an has_side_effect lt known stride))"
| "MutateRRI an has_side_effect lt known (Broadcast a lanes) =
     map_option (\<lambda>ma. Broadcast ma lanes) (MutateRRI an has_side_effect lt known a)"
| "MutateRRI an has_side_effect lt known (Shuffle vectors indices) =
     map_option (\<lambda>mv. Shuffle mv indices)
       (those (map (MutateRRI an has_side_effect lt known) vectors))"
| "MutateRRI an has_side_effect lt known e = Some e"

text \<open>\<^verbatim>\<open>RemoveRedundantInequalities\<close> (lines 957-962).\<close>

definition RemoveRedundantInequalities ::
  "analyzer \<Rightarrow> (expr \<Rightarrow> bool) \<Rightarrow> (expr \<Rightarrow> expr \<Rightarrow> bool) \<Rightarrow> expr \<Rightarrow> expr list \<Rightarrow> expr option" where
  "RemoveRedundantInequalities an has_side_effect lt e known =
     MutateRRI an has_side_effect lt (RemoveRedundantInequalitiesMutator an known) e"

section \<open>The coefficients of the bounds of a variable\<close>

text \<open>
  \<^verbatim>\<open>gcd\<close> and \<^verbatim>\<open>lcm\<close> (lines 143-155) take and return \<^verbatim>\<open>int\<close>, which has 32
  bits on the targets of the compiler; \<open>to_int32\<close> is the conversion of a wider
  integer to it. The remainder \<^verbatim>\<open>%\<close> and the quotient \<^verbatim>\<open>/\<close> of C++ truncate. A division
  by zero has no result (\<^term>\<open>None\<close>).
\<close>

definition to_int32 :: "int \<Rightarrow> int" where
  "to_int32 x = (x + 2 ^ 31) mod 2 ^ 32 - 2 ^ 31"

function gcd_loop :: "int \<Rightarrow> int \<Rightarrow> int" where
  "gcd_loop a b = (if b = 0 then a else gcd_loop b (a smod b))"
  by pat_completeness auto

termination
proof (relation "measure (\<lambda>(a, b). nat \<bar>b\<bar>)")
  show "wf (measure (\<lambda>(a, b). nat \<bar>b\<bar>))" by simp
next
  fix a b :: int
  assume "b \<noteq> 0"
  then have "\<bar>a smod b\<bar> < \<bar>b\<bar>"
    by (simp add: signed_modulo_int_def abs_mult sgn_if abs_mod_less)
  then show "((b, a smod b), (a, b)) \<in> measure (\<lambda>(a, b). nat \<bar>b\<bar>)"
    by simp
qed

definition gcd_impl :: "int \<Rightarrow> int \<Rightarrow> int" where
  "gcd_impl a b = (if a < b then gcd_loop b a else gcd_loop a b)"

definition lcm_impl :: "int \<Rightarrow> int \<Rightarrow> int option" where
  "lcm_impl a b =
     (if gcd_impl a b = 0 then None else Some (to_int32 (a * b) sdiv gcd_impl a b))"

text \<open>
  The part of \<^verbatim>\<open>SolveSystemOfInequalities\<close> that writes the bounds of a variable from
  the classified inequalities: \<open>coef_pos\<close> and \<open>coef_neg\<close> hold the pairs \<open>(c, e)\<close> of
  the inequalities \<open>c * v + e \<le> 0\<close> with \<open>c > 0\<close> and with \<open>c < 0\<close>, and their
  coefficients are 64-bit integers. \<open>coef_lcm_of\<close> is the loop at lines 1879-1885, where
  each call of \<^verbatim>\<open>lcm\<close> converts its two arguments to \<^verbatim>\<open>int\<close>; \<open>upper_bound\<close> is the
  bound of line 1894 before it is simplified; \<open>upper_condition\<close> is the condition that
  \<^verbatim>\<open>as_conditions\<close> (lines 1716-1737) reads from an upper bound.
\<close>

definition lcm_step :: "int \<Rightarrow> int option \<Rightarrow> int option" where
  "lcm_step c coef_lcm =
     (case coef_lcm of None \<Rightarrow> None | Some l \<Rightarrow> lcm_impl (to_int32 l) (to_int32 c))"

definition coef_lcm_of :: "(int \<times> expr) list \<Rightarrow> (int \<times> expr) list \<Rightarrow> int option" where
  "coef_lcm_of coef_pos coef_neg =
     fold (\<lambda>(c, e). lcm_step (- c)) coef_neg (fold (\<lambda>(c, e). lcm_step c) coef_pos (Some 1))"

definition upper_bound :: "dtype \<Rightarrow> int \<Rightarrow> int \<times> expr \<Rightarrow> expr" where
  "upper_bound ty coef_lcm pos = Arith Mul (make_const ty ((- coef_lcm) sdiv fst pos)) (snd pos)"

definition upper_condition :: "var \<Rightarrow> int \<Rightarrow> expr \<Rightarrow> expr" where
  "upper_condition v coef_lcm bound =
     Cmp LE (Arith Mul (make_const (vtype v) coef_lcm) (Variable v)) bound"

section \<open>Properties of the denotation\<close>

lemma checked_Some: "checked t r = Some v \<Longrightarrow> conforms t v \<and> r = Some v"
  by (auto simp: checked_def split: option.splits if_splits)

lemma arith_val_kind:
  "arith_val opr x y = Some v \<Longrightarrow> conforms t x \<Longrightarrow> conforms t v"
  by (cases "(opr, x, y)" rule: arith_val.cases; cases t) (auto split: if_splits)

lemma select_val_kind:
  "select_val p x y = Some v \<Longrightarrow> conforms t x \<Longrightarrow> conforms t v"
  by (cases "(p, x, y)" rule: select_val.cases; cases x; cases y; cases t)
     (auto split: if_splits)

text \<open>A value that an expression takes is of the kind that the type of the expression announces.\<close>

lemma eval_conforms: "eval E e = Some v \<Longrightarrow> conforms (type_of e) v"
proof (induction e arbitrary: v)
  case (Cast t e)
  then show ?case
    by (auto simp: Option.bind_eq_Some_conv elim!: cast_val.elims split: if_splits)
next
  case (Arith opr a b)
  then show ?case
    by (auto simp: Option.bind_eq_Some_conv dest: arith_val_kind)
next
  case (Cmp opr a b)
  then show ?case
    by (auto simp: Option.bind_eq_Some_conv Bool_t_def elim!: cmp_val.elims split: if_splits)
next
  case (And a b)
  then show ?case
    by (auto simp: Option.bind_eq_Some_conv Bool_t_def elim!: and_val.elims)
next
  case (Or a b)
  then show ?case
    by (auto simp: Option.bind_eq_Some_conv Bool_t_def elim!: or_val.elims)
next
  case (NotE a)
  then show ?case
    by (auto simp: Option.bind_eq_Some_conv Bool_t_def elim!: not_val.elims)
next
  case (Select c t f)
  then show ?case
    by (auto simp: Option.bind_eq_Some_conv dest: select_val_kind)
next
  case (Call t n args)
  then show ?case
    by (auto split: option.splits if_splits list.splits dest: checked_Some)
qed (auto simp: is_bool_def dest: checked_Some split: if_splits elim!: is_int.elims is_uint.elims)

lemma bool_val: "is_bool (type_of e) \<Longrightarrow> eval E e = Some v \<Longrightarrow> \<exists>p. v = VBool p"
  by (drule eval_conforms) (cases v; auto simp: is_bool_def)

lemma eval_const_true [simp]: "eval E const_true = Some (VBool True)"
  by (simp add: const_true_def Bool_t_def is_bool_def)

lemma eval_const_false [simp]: "eval E const_false = Some (VBool False)"
  by (simp add: const_false_def Bool_t_def is_bool_def)

lemma vars_of_const_true [simp]: "vars_of const_true = {}"
  by (simp add: const_true_def Bool_t_def)

lemma eval_And_true_right:
  "is_bool (type_of e) \<Longrightarrow> eval E (And e const_true) = eval E e"
  by (cases "eval E e") (auto dest: bool_val)

lemma eval_And_true_left:
  "is_bool (type_of e) \<Longrightarrow> eval E (And const_true e) = eval E e"
  by (cases "eval E e") (auto dest: bool_val)

section \<open>Properties of substitution and of the simplifier\<close>



lemma within_ranges_empty [simp]: "within_ranges E Map.empty"
  by (simp add: within_ranges_def)



section \<open>Properties of NonzeronessCondition\<close>



lemma same_kind_zero_like [simp]: "same_kind w (zero_like w)"
  by (cases w) auto










lemma arith_val_int:
  "arith_val opr (VInt i) (VInt j) = Some v \<longleftrightarrow> (\<exists>k. arith opr i j = Some k \<and> v = VInt k)"
  by auto













lemma zero_like_idem [simp]: "zero_like (zero_like w) = zero_like w"
  by (cases w) auto








lemma NonzeronessCondition_Some_supported:
  "NonzeronessCondition an same_as e = Some r \<Longrightarrow> nz_supported e"
proof (induction e arbitrary: r)
  case (Call t n args)
  show ?case
  proof (cases "\<not> is_bool t \<and> n = ''tvm_if_then_else'' \<and> (\<exists>c tv fv. args = [c, tv, fv])")
    case True
    then obtain c tv fv where n: "n = ''tvm_if_then_else''" and args: "args = [c, tv, fv]"
      and nb: "\<not> is_bool t"
      by blast
    from Call.prems nb obtain nz_a nz_b where
      a: "NonzeronessCondition an same_as tv = Some nz_a" and
      b: "NonzeronessCondition an same_as fv = Some nz_b"
      by (auto simp: n args split: option.splits)
    from Call.IH [of tv nz_a] Call.IH [of fv nz_b] a b show ?thesis
      by (simp add: n args)
  next
    case False
    then show ?thesis by (auto split: list.splits)
  qed
next
  case (Arith opr a b)
  then show ?case by (cases opr) (auto split: option.splits if_splits)
qed (auto split: option.splits if_splits)



text \<open>
  On a floating-point product with a zero literal the functor returns the condition
  \<open>true && false\<close>, whatever the other operand is; the denotation above gives no
  value to such a product.
\<close>

lemma NonzeronessCondition_float_product:
  "NonzeronessCondition id_analyzer (=)
     (Arith Mul (Variable (Var ''x'' (Float_t 32))) (FloatImm (Float_t 32) 0)) =
   Some \<lparr>nz_cond = And const_true const_false,
         nz_value = Arith Mul (Variable (Var ''x'' (Float_t 32))) (FloatImm (Float_t 32) 0)\<rparr>"
  by (simp add: is_bool_def BinOpMulLike_def Default_nz_def Const_nz_def SuperSimplify_def
      id_analyzer_def)




section \<open>Properties of FactorOutAtomicFormulas\<close>

lemma slo_irrefl: "strict_linear_order lt \<Longrightarrow> \<not> lt a a"
  by (simp add: strict_linear_order_def)

lemma slo_trans: "strict_linear_order lt \<Longrightarrow> lt a b \<Longrightarrow> lt b c \<Longrightarrow> lt a c"
  unfolding strict_linear_order_def by blast

lemma slo_total: "strict_linear_order lt \<Longrightarrow> \<not> lt a b \<Longrightarrow> \<not> lt b a \<Longrightarrow> a = b"
  unfolding strict_linear_order_def by blast

lemma slo_asym: "strict_linear_order lt \<Longrightarrow> lt a b \<Longrightarrow> \<not> lt b a"
  using slo_irrefl slo_trans by blast

lemma set_union_set:
  "strict_linear_order lt \<Longrightarrow> set (set_union lt xs ys) = set xs \<union> set ys"
  by (induction lt xs ys rule: set_union.induct) (auto dest: slo_total)

lemma set_union_sorted:
  shows "sorted_wrt lt xs \<Longrightarrow> sorted_wrt lt ys \<Longrightarrow> strict_linear_order lt \<Longrightarrow>
    sorted_wrt lt (set_union lt xs ys)"
proof (induction lt xs ys rule: set_union.induct)
  case (3 lt x xs y ys)
  note so = set_union_set [OF "3.prems"(3)] slo_total [OF "3.prems"(3)] slo_trans [OF "3.prems"(3)]
  from 3 show ?case
    by (auto simp: so(1) dest: so(2) so(3))
qed auto

lemma set_intersection_set:
  "sorted_wrt lt xs \<Longrightarrow> sorted_wrt lt ys \<Longrightarrow> strict_linear_order lt \<Longrightarrow>
     set (set_intersection lt xs ys) = set xs \<inter> set ys"
proof (induction lt xs ys rule: set_intersection.induct)
  case (3 lt x xs y ys)
  note so = slo_total [OF "3.prems"(3)] slo_trans [OF "3.prems"(3)] slo_irrefl [OF "3.prems"(3)]
  from 3 show ?case
    by (auto dest: so(1) so(2) simp: so(3))
qed auto

lemma set_intersection_sorted:
  "sorted_wrt lt xs \<Longrightarrow> sorted_wrt lt ys \<Longrightarrow> strict_linear_order lt \<Longrightarrow>
     sorted_wrt lt (set_intersection lt xs ys)"
proof (induction lt xs ys rule: set_intersection.induct)
  case (3 lt x xs y ys)
  from 3 show ?case
    by (auto simp: set_intersection_set)
qed auto

lemma set_difference_set:
  "sorted_wrt lt xs \<Longrightarrow> sorted_wrt lt ys \<Longrightarrow> strict_linear_order lt \<Longrightarrow>
     set (set_difference lt xs ys) = set xs - set ys"
proof (induction lt xs ys rule: set_difference.induct)
  case (3 lt x xs y ys)
  note so = slo_total [OF "3.prems"(3)] slo_trans [OF "3.prems"(3)] slo_irrefl [OF "3.prems"(3)]
  from 3 show ?case
    by (auto dest: so(1) so(2) simp: so(3))
qed auto

lemma set_difference_sorted:
  "sorted_wrt lt xs \<Longrightarrow> sorted_wrt lt ys \<Longrightarrow> strict_linear_order lt \<Longrightarrow>
     sorted_wrt lt (set_difference lt xs ys)"
proof (induction lt xs ys rule: set_difference.induct)
  case (3 lt x xs y ys)
  from 3 show ?case
    by (auto simp: set_difference_set)
qed auto

lemma defd_insert: "defd E (insert a A) \<longleftrightarrow> (\<exists>p. eval E a = Some (VBool p)) \<and> defd E A"
  by (auto simp: defd_def)

lemma holds_insert: "holds E (insert a A) \<longleftrightarrow> eval E a = Some (VBool True) \<and> holds E A"
  by (auto simp: holds_def)

lemma fo_val_And_insert: "fo_val E A (And a r) = fo_val E (insert a A) r"
proof (cases "eval E a")
  case None
  then show ?thesis
    by (cases "eval E r") (auto simp: fo_val_def defd_insert holds_insert split: val.splits)
next
  case (Some x)
  then show ?thesis
    by (cases x; cases "eval E r")
       (auto simp: fo_val_def defd_insert holds_insert split: val.splits)
qed

lemma eval_foldl_And:
  "is_bool (type_of r) \<Longrightarrow> eval E (foldl (\<lambda>res e. And e res) r as) = fo_val E (set as) r"
proof (induction as arbitrary: r)
  case Nil
  then show ?case
    by (cases "eval E r")
       (auto simp: fo_val_def defd_def holds_def dest: bool_val split: option.splits val.splits)
next
  case (Cons a as)
  have "is_bool (type_of (And a r))" by (simp add: is_bool_def Bool_t_def)
  from Cons.IH [OF this] show ?case by (simp add: fo_val_And_insert)
qed

lemma eval_FactorOut_to_expr:
  "is_bool (type_of (rest r)) \<Longrightarrow>
     eval E (FactorOut_to_expr r) = fo_val E (set (atomic_formulas r)) (rest r)"
  by (simp add: FactorOut_to_expr_def eval_foldl_And)

lemma defd_Un: "defd E (A \<union> B) \<longleftrightarrow> defd E A \<and> defd E B"
  by (auto simp: defd_def)

lemma holds_Un: "holds E (A \<union> B) \<longleftrightarrow> holds E A \<and> holds E B"
  by (auto simp: holds_def)

lemma fo_val_Un_And:
  "fo_val E (A \<union> B) (And ra rb) =
     Option.bind (fo_val E A ra) (\<lambda>x. Option.bind (fo_val E B rb) (and_val x))"
  by (cases "eval E ra"; cases "eval E rb")
     (auto simp: fo_val_def defd_Un holds_Un split: val.splits)

lemma fo_val_Int_Or:
  assumes x: "eval E x = fo_val E (A - C) ra" and y: "eval E y = fo_val E (B - C) rb"
    and C: "C = A \<inter> B"
  shows "fo_val E C (Or x y) =
     Option.bind (fo_val E A ra) (\<lambda>x. Option.bind (fo_val E B rb) (or_val x))"
proof -
  have dA: "defd E A \<longleftrightarrow> defd E (A - C) \<and> defd E C" using C by (auto simp: defd_def)
  have dB: "defd E B \<longleftrightarrow> defd E (B - C) \<and> defd E C" using C by (auto simp: defd_def)
  have hA: "holds E A \<longleftrightarrow> holds E (A - C) \<and> holds E C" using C by (auto simp: holds_def)
  have hB: "holds E B \<longleftrightarrow> holds E (B - C) \<and> holds E C" using C by (auto simp: holds_def)
  show ?thesis
    unfolding fo_val_def [of E C] eval.simps x y
    by (cases "eval E ra"; cases "eval E rb")
       (auto simp: fo_val_def dA dB hA hB split: val.splits)
qed

lemma fo_ok_cong: "(\<And>E. eval E e' = eval E e) \<Longrightarrow> fo_ok lt e' r \<Longrightarrow> fo_ok lt e r"
  by (simp add: fo_ok_def)

lemma Atomic_ok:
  assumes "is_bool (type_of e)" and "is_atomic e"
  shows "fo_ok lt e (Atomic e)"
proof -
  have c: "make_const (type_of e) 1 = const_true"
    using assms(1) by (simp add: const_true_def Bool_t_def is_bool_def)
  have "eval E (And e (make_const (type_of e) 1)) = eval E e" for E
    unfolding c by (rule eval_And_true_right [OF assms(1)])
  moreover have "is_bool (type_of (make_const (type_of e) 1))"
    unfolding c by (simp add: const_true_def Bool_t_def is_bool_def)
  ultimately show ?thesis using assms(2)
    by (simp add: fo_ok_def Atomic_def FactorOut_to_expr_def)
qed

lemma VisitAnd_ok:
  assumes o: "strict_linear_order lt" and a: "fo_ok lt a ra" and b: "fo_ok lt b rb"
  shows "fo_ok lt (And a b) (VisitAnd lt ra rb)"
proof -
  have sa: "sorted_wrt lt (atomic_formulas ra)" and sb: "sorted_wrt lt (atomic_formulas rb)"
    using a b by (simp_all add: fo_ok_def)
  have ea: "eval E a = fo_val E (set (atomic_formulas ra)) (rest ra)" for E
    using a eval_FactorOut_to_expr [of ra E] by (simp add: fo_ok_def)
  have eb: "eval E b = fo_val E (set (atomic_formulas rb)) (rest rb)" for E
    using b eval_FactorOut_to_expr [of rb E] by (simp add: fo_ok_def)
  have t: "is_bool (type_of (rest (VisitAnd lt ra rb)))"
    by (simp add: VisitAnd_def is_bool_def Bool_t_def)
  have "eval E (FactorOut_to_expr (VisitAnd lt ra rb)) = eval E (And a b)" for E
    unfolding eval_FactorOut_to_expr [OF t]
    by (simp add: VisitAnd_def set_union_set [OF o] fo_val_Un_And ea eb)
  moreover have "sorted_wrt lt (atomic_formulas (VisitAnd lt ra rb))"
    by (simp add: VisitAnd_def set_union_sorted [OF sa sb o])
  moreover have "\<forall>x \<in> set (atomic_formulas (VisitAnd lt ra rb)). is_atomic x"
    using a b by (auto simp: VisitAnd_def set_union_set [OF o] fo_ok_def)
  ultimately show ?thesis using t by (simp add: fo_ok_def)
qed

lemma VisitOr_ok:
  assumes o: "strict_linear_order lt" and a: "fo_ok lt a ra" and b: "fo_ok lt b rb"
  shows "fo_ok lt (Or a b) (VisitOr lt ra rb)"
proof -
  let ?A = "atomic_formulas ra" and ?B = "atomic_formulas rb"
  define C where "C = set_intersection lt ?A ?B"
  define ra' where "ra' = ra\<lparr>atomic_formulas := set_difference lt ?A C\<rparr>"
  define rb' where "rb' = rb\<lparr>atomic_formulas := set_difference lt ?B C\<rparr>"
  have sa: "sorted_wrt lt ?A" and sb: "sorted_wrt lt ?B"
    and ta: "is_bool (type_of (rest ra))" and tb: "is_bool (type_of (rest rb))"
    using a b by (simp_all add: fo_ok_def)
  have sc: "sorted_wrt lt C" unfolding C_def by (rule set_intersection_sorted [OF sa sb o])
  have setC: "set C = set ?A \<inter> set ?B" unfolding C_def by (rule set_intersection_set [OF sa sb o])
  have ea: "eval E a = fo_val E (set ?A) (rest ra)" for E
    using a eval_FactorOut_to_expr [of ra E] by (simp add: fo_ok_def)
  have eb: "eval E b = fo_val E (set ?B) (rest rb)" for E
    using b eval_FactorOut_to_expr [of rb E] by (simp add: fo_ok_def)
  have xa: "eval E (FactorOut_to_expr ra') = fo_val E (set ?A - set C) (rest ra)" for E
    using eval_FactorOut_to_expr [of ra' E] ta
    by (simp add: ra'_def set_difference_set [OF sa sc o])
  have xb: "eval E (FactorOut_to_expr rb') = fo_val E (set ?B - set C) (rest rb)" for E
    using eval_FactorOut_to_expr [of rb' E] tb
    by (simp add: rb'_def set_difference_set [OF sb sc o])
  have r: "VisitOr lt ra rb =
      \<lparr>atomic_formulas = C, rest = Or (FactorOut_to_expr ra') (FactorOut_to_expr rb')\<rparr>"
    by (simp add: VisitOr_def Let_def C_def ra'_def rb'_def)
  have t: "is_bool (type_of (rest (VisitOr lt ra rb)))"
    by (simp add: r is_bool_def Bool_t_def)
  have "eval E (FactorOut_to_expr (VisitOr lt ra rb)) = eval E (Or a b)" for E
    unfolding eval_FactorOut_to_expr [OF t]
    using fo_val_Int_Or [OF xa xb setC, of E]
    by (simp add: r ea eb)
  moreover have "\<forall>x \<in> set (atomic_formulas (VisitOr lt ra rb)). is_atomic x"
    using a by (auto simp: r setC fo_ok_def)
  ultimately show ?thesis using t sc by (simp add: fo_ok_def r)
qed

lemma eval_Select_as_Or:
  assumes "is_bool (type_of c)" "is_bool (type_of t)" "type_of t = type_of f"
  shows "eval E (Or (And c t) (And (NotE c) f)) = eval E (Select c t f)"
proof -
  have "is_bool (type_of f)" using assms by simp
  from bool_val [OF assms(1)] bool_val [OF assms(2)] bool_val [OF this] show ?thesis
    by (cases "eval E c"; cases "eval E t"; cases "eval E f") fastforce+
qed

lemma eval_Not_Select:
  assumes "is_bool (type_of c)" "is_bool (type_of t)" "type_of t = type_of f"
  shows "eval E (And (Or (NotE c) (NotE t)) (Or c (NotE f))) = eval E (NotE (Select c t f))"
proof -
  have "is_bool (type_of f)" using assms by simp
  from bool_val [OF assms(1)] bool_val [OF assms(2)] bool_val [OF this] show ?thesis
    by (cases "eval E c"; cases "eval E t"; cases "eval E f") fastforce+
qed

lemma eval_Not_Or: "eval E (And (NotE a) (NotE b)) = eval E (NotE (Or a b))"
  by (cases "eval E a"; cases "eval E b"; (simp; fail)?)
     (rename_tac x y, case_tac x; case_tac y; simp)

lemma eval_Not_And: "eval E (Or (NotE a) (NotE b)) = eval E (NotE (And a b))"
  by (cases "eval E a"; cases "eval E b"; (simp; fail)?)
     (rename_tac x y, case_tac x; case_tac y; simp)

lemma eval_Mul_as_And:
  assumes "is_bool (type_of a)" "type_of a = type_of b"
  shows "eval E (And a b) = eval E (Arith Mul a b)"
proof -
  have "is_bool (type_of b)" using assms by simp
  from bool_val [OF assms(1)] bool_val [OF this] show ?thesis
    by (cases "eval E a"; cases "eval E b") fastforce+
qed

lemma is_bool_Bool_t [simp]: "is_bool Bool_t"
  by (simp add: is_bool_def Bool_t_def)

lemma rank_less_order: "strict_linear_order rank_less"
  unfolding strict_linear_order_def rank_less_def
  by (metis less_irrefl less_trans linorder_neqE_nat to_nat_split)

lemma VisitExpr_ok:
  "strict_linear_order lt \<Longrightarrow> well_formed e \<Longrightarrow> is_bool (type_of e) \<Longrightarrow>
     VisitExpr lt e = Some r \<Longrightarrow> fo_ok lt e r"
proof (induction lt e arbitrary: r rule: VisitExpr.induct)
  case (6 lt c t f)
  from "6.prems"(2,3) have ty: "is_bool (type_of c)" "is_bool (type_of t)" "type_of t = type_of f"
    unfolding well_formed.simps type_of.simps by blast+
  have tf: "is_bool (type_of f)" using ty(2) unfolding ty(3) .
  have wf: "well_formed (Or (And c t) (And (NotE c) f))"
    using "6.prems"(2) ty(1,2) tf by auto
  have b: "is_bool (type_of (Or (And c t) (And (NotE c) f)))"
    by (simp add: is_bool_def Bool_t_def)
  have v: "VisitExpr lt (Or (And c t) (And (NotE c) f)) = Some r"
    using "6.prems"(4) by simp
  from "6.IH" [OF "6.prems"(1) wf b v] show ?case
    by (rule fo_ok_cong [rotated]) (rule eval_Select_as_Or [OF ty])
next
  case (7 lt a b)
  have wf: "well_formed (And (NotE a) (NotE b))"
    using "7.prems"(2) by (simp add: is_bool_def Bool_t_def)
  have b: "is_bool (type_of (And (NotE a) (NotE b)))"
    by (simp add: is_bool_def Bool_t_def)
  have v: "VisitExpr lt (And (NotE a) (NotE b)) = Some r"
    using "7.prems"(4) by simp
  from "7.IH" [OF "7.prems"(1) wf b v] show ?case
    by (rule fo_ok_cong [rotated]) (rule eval_Not_Or)
next
  case (8 lt a b)
  have wf: "well_formed (Or (NotE a) (NotE b))"
    using "8.prems"(2) by (simp add: is_bool_def Bool_t_def)
  have b: "is_bool (type_of (Or (NotE a) (NotE b)))"
    by (simp add: is_bool_def Bool_t_def)
  have v: "VisitExpr lt (Or (NotE a) (NotE b)) = Some r"
    using "8.prems"(4) by simp
  from "8.IH" [OF "8.prems"(1) wf b v] show ?case
    by (rule fo_ok_cong [rotated]) (rule eval_Not_And)
next
  case (9 lt c t f)
  from "9.prems"(2) have "well_formed (Select c t f)" "is_bool (type_of (Select c t f))"
    unfolding well_formed.simps by blast+
  then have ty: "is_bool (type_of c)" "is_bool (type_of t)" "type_of t = type_of f"
    unfolding well_formed.simps type_of.simps by blast+
  have tf: "is_bool (type_of f)" using ty(2) unfolding ty(3) .
  have wf: "well_formed (And (Or (NotE c) (NotE t)) (Or c (NotE f)))"
    using "9.prems"(2) ty(1,2) tf by auto
  have b: "is_bool (type_of (And (Or (NotE c) (NotE t)) (Or c (NotE f))))"
    by (simp add: is_bool_def Bool_t_def)
  have v: "VisitExpr lt (And (Or (NotE c) (NotE t)) (Or c (NotE f))) = Some r"
    using "9.prems"(4) by simp
  from "9.IH" [OF "9.prems"(1) wf b v] show ?case
    by (rule fo_ok_cong [rotated]) (rule eval_Not_Select [OF ty])
next
  case (11 lt a b)
  from "11.prems"(4) obtain ra rb where
    a: "VisitExpr lt a = Some ra" and b: "VisitExpr lt b = Some rb" and r: "r = VisitAnd lt ra rb"
    by (auto split: option.splits)
  from "11.prems"(2) have wf: "well_formed a" "well_formed b"
    "is_bool (type_of a)" "is_bool (type_of b)"
    by simp_all
  have "fo_ok lt a ra" by (rule "11.IH"(1) [OF "11.prems"(1) wf(1) wf(3) a])
  moreover have "fo_ok lt b rb" by (rule "11.IH"(2) [OF a "11.prems"(1) wf(2) wf(4) b])
  ultimately show ?case unfolding r by (rule VisitAnd_ok [OF "11.prems"(1)])
next
  case (12 lt a b)
  from "12.prems"(2,3) have ty: "is_bool (type_of a)" "type_of a = type_of b"
    by simp_all
  have wf: "well_formed (And a b)" using "12.prems"(2) ty by simp
  have b: "is_bool (type_of (And a b))" by (simp add: is_bool_def Bool_t_def)
  have v: "VisitExpr lt (And a b) = Some r" using "12.prems"(4) by simp
  from "12.IH" [OF "12.prems"(1) wf b v] show ?case
    by (rule fo_ok_cong [rotated]) (rule eval_Mul_as_And [OF ty])
next
  case (13 lt a b)
  from "13.prems"(4) obtain ra rb where
    a: "VisitExpr lt a = Some ra" and b: "VisitExpr lt b = Some rb" and r: "r = VisitOr lt ra rb"
    by (auto split: option.splits)
  from "13.prems"(2) have wf: "well_formed a" "well_formed b"
    "is_bool (type_of a)" "is_bool (type_of b)"
    by simp_all
  have "fo_ok lt a ra" by (rule "13.IH"(1) [OF "13.prems"(1) wf(1) wf(3) a])
  moreover have "fo_ok lt b rb" by (rule "13.IH"(2) [OF a "13.prems"(1) wf(2) wf(4) b])
  ultimately show ?case unfolding r by (rule VisitOr_ok [OF "13.prems"(1)])
qed (auto simp: Atomic_ok)

lemma VisitExpr_supported:
  "(\<exists>r. VisitExpr lt e = Some r) \<longleftrightarrow> supported e"
  by (induction lt e rule: VisitExpr.induct) (auto split: option.splits)

text \<open>
  Where \<^verbatim>\<open>FactorOutAtomicFormulas\<close> returns, that is on a boolean expression on
  which every node that the functor is dispatched on has a case, the formulas that it
  returns are strictly sorted by the deep comparison, each of them is a variable, a
  call, a constant, a comparison or a negation whose operand is not a disjunction,
  conjunction or \<^verbatim>\<open>Select\<close>, and the conjunction \<^verbatim>\<open>to_expr\<close> has the value of
  the expression under every assignment.
\<close>

lemma FactorOutAtomicFormulas_roundtrip:
  assumes "strict_linear_order expr_less" and "well_formed e" and "is_bool (type_of e)"
    and "supported e"
  shows "\<exists>r. FactorOutAtomicFormulas expr_less e = Some r \<and>
           sorted_wrt expr_less (atomic_formulas r) \<and>
           (\<forall>a \<in> set (atomic_formulas r). is_atomic a) \<and>
           (\<forall>E. eval E (FactorOut_to_expr r) = eval E e)"
proof -
  from assms(4) obtain r where r: "VisitExpr expr_less e = Some r"
    using VisitExpr_supported [of expr_less e] by blast
  from VisitExpr_ok [OF assms(1-3) r] r assms(3) show ?thesis
    by (simp add: FactorOutAtomicFormulas_def fo_ok_def)
qed

lemma FactorOutAtomicFormulas_returns_iff:
  "(\<exists>r. FactorOutAtomicFormulas expr_less e = Some r) \<longleftrightarrow>
     is_bool (type_of e) \<and> supported e"
  by (simp add: FactorOutAtomicFormulas_def VisitExpr_supported)

text \<open>
  C5. The claim says that no atomic formula has \<open>Not\<close> on top, and so does the comment
  on \<^verbatim>\<open>FactorOutAtomicFormulas\<close> (lines 849-851). On the negation of a boolean
  variable \<open>b\<close>, the case for \<^verbatim>\<open>Not\<close> (lines 773-787) falls through to
  \<^verbatim>\<open>Atomic_(e)\<close>: the function returns \<open>!b\<close> itself as the one atomic formula,
  with the residual \<open>true\<close>, whatever the deep comparison is.
\<close>

theorem FactorOutAtomicFormulas_negated_atom:
  "FactorOutAtomicFormulas expr_less (NotE (Variable (Var ''b'' Bool_t))) =
     Some \<lparr>atomic_formulas = [NotE (Variable (Var ''b'' Bool_t))], rest = const_true\<rparr>"
  by (simp add: FactorOutAtomicFormulas_def Atomic_def const_true_def)

section \<open>Properties of the elimination of divisions and modulos\<close>

lemma AddNewVarPair_unbounded:
  assumes "cr (DivImpl mut (make_const (type_of e) c) mode) (ranges s) = None \<or>
           cr (ModImpl mut (make_const (type_of e) c) mode) (ranges s) = None"
    and "sa e mut \<or> expr_to_vars s (mode, mut, c) = None"
  shows "AddNewVarPair an cr sa e mut c mode s =
     (None, s\<lparr>idx := idx s + 1,
               warnings := warnings s @ [WontEliminate (DivImpl e (make_const (type_of e) c) mode)]\<rparr>)"
  using assms
  by (auto simp: AddNewVarPair_def split: option.splits)

lemma nonzero_immD: "nonzero_imm b = Some c \<Longrightarrow> \<exists>t. b = IntImm t c \<and> c \<noteq> 0"
  by (cases b) (auto split: if_splits)





text \<open>
  C8. Where the divisor is a positive integer literal, no pair of variables is known
  for the operand, and the range evaluator returns the undefined range for the
  candidate \<open>div\<close> or \<open>mod\<close> expression, the visit returns the division or modulo
  node with the mutated operand, and the mutator is the one left by the visit of the
  operand, but for the counter, incremented, and one more warning: no new variable,
  substitution, range or condition is recorded. The visit is a total function, so no
  error is raised.
\<close>

theorem EliminateDivMod_unbounded_aborts:
  assumes opr: "opr = Div \<or> opr = Mod \<or> opr = FloorDiv \<or> opr = FloorMod"
    and b: "nonzero_imm b = Some c" and c: "0 < c"
    and fresh: "expr_to_vars s (mode_of opr, a, c) = None"
    and a: "Mutate an cr sa lf a s = (mutated_a, s1)"
    and fresh1: "sa a mutated_a \<or> expr_to_vars s1 (mode_of opr, mutated_a, c) = None"
    and unb: "cr (DivImpl mutated_a (make_const (type_of a) c) (mode_of opr)) (ranges s1) = None \<or>
              cr (ModImpl mutated_a (make_const (type_of a) c) (mode_of opr)) (ranges s1) = None"
  shows "Mutate an cr sa lf (Arith opr a b) s =
           (Arith opr mutated_a b,
            s1\<lparr>idx := idx s1 + 1,
               warnings := warnings s1 @
                 [WontEliminate (DivImpl a (make_const (type_of a) c) (mode_of opr))]\<rparr>)"
proof -
  note r = AddNewVarPair_unbounded [of cr mutated_a a c "mode_of opr" s1 sa an, OF unb fresh1]
  from opr show ?thesis
    using b c fresh a r
    by (auto simp: mode_of_def truncdiv_def truncmod_def floordiv_def floormod_def
          simp del: Mutate.simps(5-))
qed

theorem EliminateDivMod_unbounded_aborts_witness:
  "let i = Variable (Var ''i'' (Int_t 32)); four = IntImm (Int_t 32) 4;
       s = initial_mutator Map.empty
   in nonzero_imm four = Some 4 \<and>
      expr_to_vars s (mode_of Div, i, 4) = None \<and>
      Mutate id_analyzer (\<lambda>e rs. None) (=) True i s = (i, s) \<and>
      Mutate id_analyzer (\<lambda>e rs. None) (=) True (Arith Div i four) s =
        (Arith Div i four,
         s\<lparr>idx := 1, warnings := [WontEliminate (Arith Div i four)]\<rparr>)"
proof -
  let ?i = "Variable (Var ''i'' (Int_t 32))"
  let ?s = "initial_mutator Map.empty"
  have b: "nonzero_imm (IntImm (Int_t 32) 4) = Some 4" by simp
  have f: "expr_to_vars ?s (mode_of Div, ?i, 4) = None" by (simp add: initial_mutator_def)
  have a: "Mutate id_analyzer (\<lambda>e rs. None) (=) True ?i ?s = (?i, ?s)" by simp
  have f1: "?i = ?i \<or> expr_to_vars ?s (mode_of Div, ?i, 4) = None" by simp
  from EliminateDivMod_unbounded_aborts [of Div "IntImm (Int_t 32) 4" 4 ?s ?i id_analyzer
      "\<lambda>e rs. None" "(=)" True ?i ?s, OF _ b _ f a f1] b f a
  show ?thesis
    unfolding Let_def by (simp add: initial_mutator_def truncdiv_def mode_of_def)
qed

section \<open>Properties of the transformations of domains\<close>

lemma fold_upd_lookup:
  "fold (\<lambda>v m. m(v \<mapsto> f v)) vs m0 x = (if x \<in> set vs then Some (f x) else m0 x)"
  by (induction vs arbitrary: m0) auto










lemma conditions_loop_Inl:
  "\<exists>j \<in> set js. is_const_int
       (SuperSimplify an (row_condition vars_size matrix rhs j) (dom_ranges d)) 0 \<Longrightarrow>
     conditions_loop an d vars_size matrix rhs js conds = Inl (EmptyDomainTransformation d)"
  by (induction js arbitrary: conds) (auto simp: Let_def)

lemma conditions_loop_Inr:
  "\<forall>j \<in> set js. \<not> is_const_int
       (SuperSimplify an (row_condition vars_size matrix rhs j) (dom_ranges d)) 0 \<Longrightarrow>
     conditions_loop an d vars_size matrix rhs js conds =
       Inr (conds @ filter (\<lambda>c. \<not> is_const_int c 1)
              (map (\<lambda>j. SuperSimplify an (row_condition vars_size matrix rhs j) (dom_ranges d)) js))"
  by (induction js arbitrary: conds) (auto simp: Let_def)

lemma eval_row_condition:
  assumes "eval E (rhs ! j) = Some (VInt r)" and "is_int (type_of (rhs ! j))"
  shows "eval E (row_condition vars_size matrix rhs j) =
     Some (VBool (if j \<ge> vars_size \<or> matrix ! j ! j = 0 then r = 0 else matrix ! j ! j dvd r))"
proof -
  obtain b where t: "type_of (rhs ! j) = Int_t b"
    using assms(2) by (cases "type_of (rhs ! j)") auto
  show ?thesis
    using assms(1)
    by (auto simp: row_condition_def t floormod_def mod_eq_0_iff_dvd)
qed

lemma Empty_old_to_new:
  "old_to_new (EmptyDomainTransformation d) v =
     (if v \<in> set (dom_variables d) then Some (make_zero (vtype v)) else None)"
  by (simp add: EmptyDomainTransformation_def fold_upd_lookup)

text \<open>
  C7. After the diagonalization, the condition of row \<open>j\<close> is \<open>rhs[j] == 0\<close> where
  the row is beyond the diagonal or its diagonal element is zero, and
  \<open>floormod(rhs[j], |d|) == 0\<close> for a diagonal element \<open>d \<noteq> 0\<close>; on an integer
  right-hand side with the value \<open>r\<close> it says \<open>r = 0\<close>, respectively
  \<open>r mod |d| = 0\<close>. If one of these conditions simplifies to the literal \<open>0\<close>, the
  function returns \<^verbatim>\<open>EmptyDomainTransformation(domain)\<close>; otherwise it goes on with
  the simplified conditions that are not the literal \<open>1\<close>, in the order of the rows.
  The new domain of the empty transformation has no variables and the one condition
  \<open>false\<close>, its old domain is the given one, and its \<open>old_to_new\<close> maps every
  variable of that domain to the zero of its type.
\<close>

theorem SolveSystemOfEquations_existence_conditions:
  "((\<exists>j < length matrix. is_const_int (emitted_condition an d matrix rhs j) 0) \<longrightarrow>
      existence_conditions an d matrix rhs = Inl (EmptyDomainTransformation d)) \<and>
   ((\<forall>j < length matrix. \<not> is_const_int (emitted_condition an d matrix rhs j) 0) \<longrightarrow>
      existence_conditions an d matrix rhs =
        Inr (filter (\<lambda>c. \<not> is_const_int c 1)
               (map (emitted_condition an d matrix rhs) [0..<length matrix]))) \<and>
   (eval E (rs ! j) = Some (VInt r) \<and> is_int (type_of (rs ! j)) \<longrightarrow>
      eval E (row_condition vars_size matrix rs j) =
        Some (VBool (if j \<ge> vars_size \<or> matrix ! j ! j = 0 then r = 0
                     else r mod \<bar>matrix ! j ! j\<bar> = 0))) \<and>
   dom_variables (new_domain (EmptyDomainTransformation d)) = [] \<and>
   dom_conditions (new_domain (EmptyDomainTransformation d)) = [const_false] \<and>
   old_domain (EmptyDomainTransformation d) = d \<and>
   (\<forall>v \<in> set (dom_variables d).
      old_to_new (EmptyDomainTransformation d) v = Some (make_zero (vtype v)))"
proof -
  have 1: "existence_conditions an d matrix rhs = Inl (EmptyDomainTransformation d)"
    if "\<exists>j < length matrix. is_const_int (emitted_condition an d matrix rhs j) 0"
    unfolding existence_conditions_def Let_def
    by (rule conditions_loop_Inl)
       (use that in \<open>auto simp: emitted_condition_def simplified_rhs_def\<close>)
  have 2: "existence_conditions an d matrix rhs =
        Inr (filter (\<lambda>c. \<not> is_const_int c 1)
               (map (emitted_condition an d matrix rhs) [0..<length matrix]))"
    if "\<forall>j < length matrix. \<not> is_const_int (emitted_condition an d matrix rhs j) 0"
  proof -
    have "conditions_loop an d (length (dom_variables d)) matrix (simplified_rhs an d rhs)
            [0..<length matrix] [] =
          Inr ([] @ filter (\<lambda>c. \<not> is_const_int c 1)
              (map (\<lambda>j. SuperSimplify an
                     (row_condition (length (dom_variables d)) matrix (simplified_rhs an d rhs) j)
                     (dom_ranges d)) [0..<length matrix]))"
      by (rule conditions_loop_Inr) (use that in \<open>auto simp: emitted_condition_def\<close>)
    then show ?thesis
      by (simp add: existence_conditions_def Let_def simplified_rhs_def emitted_condition_def
          cong: map_cong)
  qed
  have 3: "eval E (row_condition vars_size matrix rs j) =
        Some (VBool (if j \<ge> vars_size \<or> matrix ! j ! j = 0 then r = 0
                     else r mod \<bar>matrix ! j ! j\<bar> = 0))"
    if "eval E (rs ! j) = Some (VInt r) \<and> is_int (type_of (rs ! j))"
    using eval_row_condition [of E rs j r vars_size matrix] that
    by (simp add: mod_eq_0_iff_dvd)
  have 4: "dom_variables (new_domain (EmptyDomainTransformation d)) = []"
    "dom_conditions (new_domain (EmptyDomainTransformation d)) = [const_false]"
    "old_domain (EmptyDomainTransformation d) = d"
    by (simp_all add: EmptyDomainTransformation_def const_false_def make_zero_def)
  from 1 2 3 4 show ?thesis
    by (simp add: Empty_old_to_new)
qed

lemma one_fact_analyzer_sound: "analyzer_sound one_fact_analyzer"
  by (auto simp: analyzer_sound_def one_fact_analyzer_def)

theorem SolveSystemOfEquations_existence_conditions_witness:
  "let x = Var ''x'' (Int_t 32); y = Variable (Var ''y'' (Int_t 32));
       d = \<lparr>dom_variables = [x], dom_conditions = [], dom_ranges = Map.empty\<rparr>;
       E = \<lparr>var_val = (\<lambda>v. VInt 6), call_val = (\<lambda>n vs. None)\<rparr>
   in (\<exists>j < length [[0::int]].
         is_const_int (emitted_condition one_fact_analyzer d [[0]] [IntImm (Int_t 32) 1] j) 0) \<and>
      existence_conditions one_fact_analyzer d [[0]] [IntImm (Int_t 32) 1] =
        Inl (EmptyDomainTransformation d) \<and>
      existence_conditions id_analyzer d [[2]] [y] =
        Inr [Cmp EQ (floormod y (IntImm (Int_t 32) 2)) (IntImm (Int_t 32) 0)] \<and>
      eval E ([y] ! 0) = Some (VInt 6) \<and>
      eval E (row_condition 1 [[2]] [y] 0) = Some (VBool True) \<and>
      old_to_new (EmptyDomainTransformation d) x = Some (IntImm (Int_t 32) 0)"
proof -
  let ?x = "Var ''x'' (Int_t 32)" and ?y = "Variable (Var ''y'' (Int_t 32))"
  let ?d = "\<lparr>dom_variables = [?x], dom_conditions = [], dom_ranges = Map.empty\<rparr>"
  let ?E = "\<lparr>var_val = (\<lambda>v. VInt 6), call_val = (\<lambda>n vs. None)\<rparr>"
  have e0: "emitted_condition one_fact_analyzer ?d [[0]] [IntImm (Int_t 32) 1] 0 = const_false"
    by (simp add: emitted_condition_def simplified_rhs_def row_condition_def SuperSimplify_def
        one_fact_analyzer_def const_false_def Bool_t_def)
  have a: "\<exists>j < length [[0::int]].
         is_const_int (emitted_condition one_fact_analyzer ?d [[0]] [IntImm (Int_t 32) 1] j) 0"
    using e0 by (simp add: const_false_def Bool_t_def)
  have e1: "emitted_condition id_analyzer ?d [[2]] [?y] 0 =
      Cmp EQ (floormod ?y (IntImm (Int_t 32) 2)) (IntImm (Int_t 32) 0)"
    by (simp add: emitted_condition_def simplified_rhs_def row_condition_def SuperSimplify_def
        id_analyzer_def)
  have b: "\<forall>j < length [[2::int]]. \<not> is_const_int (emitted_condition id_analyzer ?d [[2]] [?y] j) 0"
    using e1 by simp
  have v: "eval ?E ([?y] ! 0) = Some (VInt 6) \<and> is_int (type_of ([?y] ! 0))"
    by (simp add: checked_def)
  from SolveSystemOfEquations_existence_conditions
         [of "[[0]]" one_fact_analyzer ?d "[IntImm (Int_t 32) 1]" ?E "[?y]" 0 6 1] a
  have r1: "existence_conditions one_fact_analyzer ?d [[0]] [IntImm (Int_t 32) 1] =
        Inl (EmptyDomainTransformation ?d)"
    and z: "old_to_new (EmptyDomainTransformation ?d) ?x = Some (IntImm (Int_t 32) 0)"
    by (simp_all add: make_zero_def)
  from SolveSystemOfEquations_existence_conditions
         [of "[[2]]" id_analyzer ?d "[?y]" ?E "[?y]" 0 6 1] b v
  have r2: "existence_conditions id_analyzer ?d [[2]] [?y] =
        Inr (filter (\<lambda>c. \<not> is_const_int c 1)
               (map (emitted_condition id_analyzer ?d [[2]] [?y]) [0..<length [[2::int]]]))"
    and r3: "eval ?E (row_condition 1 [[2]] [?y] 0) = Some (VBool True)"
    by simp_all
  from r2 e1 have r2': "existence_conditions id_analyzer ?d [[2]] [?y] =
        Inr [Cmp EQ (floormod ?y (IntImm (Int_t 32) 2)) (IntImm (Int_t 32) 0)]"
    by simp
  from a r1 r2' v r3 z show ?thesis
    unfolding Let_def by simp
qed

section \<open>Properties of the removal of redundant inequalities\<close>

lemma SuperSimplify_id_empty [simp]: "SuperSimplify id_analyzer e Map.empty = e"
  by (simp add: SuperSimplify_def id_analyzer_def)

lemma is_one_const_true [simp]: "is_one const_true"
  by (simp add: is_one_def const_true_def Bool_t_def)

lemma MutateRRI_const_true [simp]:
  "MutateRRI an has_side_effect lt known const_true = Some const_true"
  by (simp add: const_true_def Bool_t_def)


section \<open>Properties of the coefficients of the bounds\<close>

text \<open>
  C3. The claim says that the conditions of the result are equivalent to the given
  inequalities. For the one inequality \<open>4294967296 * x + y \<le> 0\<close> over 64-bit \<open>x\<close> and
  \<open>y\<close>, and the variable \<open>x\<close>, the classification gives the coefficient
  \<open>4294967296\<close>, which \<^verbatim>\<open>lcm\<close> receives as the \<^verbatim>\<open>int\<close> \<open>0\<close>: the common coefficient
  is \<open>0\<close>, the bound is \<open>0 * y\<close> and the condition is \<open>0 * x \<le> 0 * y\<close>, which holds for
  \<open>x = y = 1\<close>, where the given inequality does not.
\<close>

theorem SolveSystemOfInequalities_coefficient_truncated:
  "to_int32 4294967296 = 0 \<and>
   coef_lcm_of [(4294967296, Variable (Var ''y'' (Int_t 64)))] [] = Some 0 \<and>
   upper_condition (Var ''x'' (Int_t 64)) 0
       (upper_bound (Int_t 64) 0 (4294967296, Variable (Var ''y'' (Int_t 64)))) =
     Cmp LE (Arith Mul (IntImm (Int_t 64) 0) (Variable (Var ''x'' (Int_t 64))))
            (Arith Mul (IntImm (Int_t 64) 0) (Variable (Var ''y'' (Int_t 64)))) \<and>
   eval \<lparr>var_val = (\<lambda>v. VInt 1), call_val = (\<lambda>n vs. None)\<rparr>
     (Cmp LE (Arith Mul (IntImm (Int_t 64) 0) (Variable (Var ''x'' (Int_t 64))))
             (Arith Mul (IntImm (Int_t 64) 0) (Variable (Var ''y'' (Int_t 64))))) =
     Some (VBool True) \<and>
   eval \<lparr>var_val = (\<lambda>v. VInt 1), call_val = (\<lambda>n vs. None)\<rparr>
     (Cmp LE (Arith Add (Arith Mul (IntImm (Int_t 64) 4294967296) (Variable (Var ''x'' (Int_t 64))))
                        (Variable (Var ''y'' (Int_t 64))))
             (IntImm (Int_t 64) 0)) =
     Some (VBool False)"
proof -
  have t: "to_int32 4294967296 = 0" "to_int32 1 = 1" "to_int32 0 = 0"
    by (simp_all add: to_int32_def)
  have g: "gcd_impl 1 0 = 1"
    by (simp add: gcd_impl_def)
  have l: "lcm_impl 1 0 = Some 0"
    by (simp add: lcm_impl_def g t)
  have c: "coef_lcm_of [(4294967296, Variable (Var ''y'' (Int_t 64)))] [] = Some 0"
    by (simp add: coef_lcm_of_def lcm_step_def t l)
  show ?thesis
    using t(1) c
    by (simp add: upper_condition_def upper_bound_def checked_def signed_divide_int_def)
qed

section \<open>Properties of ImplicationNotContainingVars\<close>

lemma and_and_eval:
  assumes "eval E (And a1 a2) = eval E a" "eval E (And b1 b2) = eval E b"
  shows "eval E (And (And a1 b1) (And a2 b2)) = eval E (And a b)"
proof -
  have "eval E (And a b) = eval E (And (And a1 a2) (And b1 b2))"
    using assms by simp
  also have "\<dots> = eval E (And (And a1 b1) (And a2 b2))"
    by (cases "eval E a1"; cases "eval E a2"; cases "eval E b1"; cases "eval E b2";
        (simp; fail)?) (rename_tac w x y z, case_tac w; case_tac x; case_tac y; case_tac z; auto)
  finally show ?thesis by simp
qed

lemma and_or_distrib_eval:
  assumes "eval E (And a1 a2) = eval E a" "eval E (And b1 b2) = eval E b"
  shows "eval E (And (Or a1 b1) (And (And (Or a1 b2) (Or b1 a2)) (Or a2 b2))) = eval E (Or a b)"
proof -
  have "eval E (Or a b) = eval E (Or (And a1 a2) (And b1 b2))"
    using assms by simp
  also have "\<dots> = eval E (And (Or a1 b1) (And (And (Or a1 b2) (Or b1 a2)) (Or a2 b2)))"
    by (cases "eval E a1"; cases "eval E a2"; cases "eval E b1"; cases "eval E b2";
        (simp; fail)?) (rename_tac w x y z, case_tac w; case_tac x; case_tac y; case_tac z; auto)
  finally show ?thesis by simp
qed

lemma ImplicationNotContainingVars_sound:
  "ImplicationNotContainingVars cond vars = Some (outer, inner) \<Longrightarrow>
     vars_of outer \<inter> vars = {} \<and> (\<forall>E. eval E (And outer inner) = eval E cond)"
proof (induction cond arbitrary: outer inner)
  case (And a b)
  from And.prems obtain oa ia ob ib where
    a: "ImplicationNotContainingVars a vars = Some (oa, ia)" and
    b: "ImplicationNotContainingVars b vars = Some (ob, ib)" and
    r: "outer = And oa ob" "inner = And ia ib"
    by (auto split: option.splits)
  from And.IH(1) [OF a] And.IH(2) [OF b] r show ?case
    using and_and_eval [of _ oa ia a ob ib b] by auto
next
  case (Or a b)
  from Or.prems obtain oa ia ob ib where
    a: "ImplicationNotContainingVars a vars = Some (oa, ia)" and
    b: "ImplicationNotContainingVars b vars = Some (ob, ib)" and
    r: "outer = Or oa ob" "inner = And (And (Or oa ib) (Or ob ia)) (Or ia ib)"
    by (auto split: option.splits)
  from Or.IH(1) [OF a] Or.IH(2) [OF b] r show ?case
    using and_or_distrib_eval [of _ oa ia a ob ib b] by auto
qed (auto split: if_splits simp: ExprUseVar_def eval_And_true_right eval_And_true_left
      simp del: eval.simps vars_of.simps)

lemma ImplicationNotContainingVars_total:
  "well_formed cond \<Longrightarrow> is_bool (type_of cond) \<Longrightarrow>
     \<exists>r. ImplicationNotContainingVars cond vars = Some r"
  by (induction cond vars rule: ImplicationNotContainingVars.induct) auto

text \<open>
  C10. For every boolean expression \<open>cond\<close> (built as the IR builds it) and every set
  of variables \<open>vars\<close>, \<^verbatim>\<open>ImplicationNotContainingVars\<close> returns a pair
  \<open>(outer, inner)\<close> such that no variable of \<open>vars\<close> occurs in \<open>outer\<close> and
  \<open>outer && inner\<close> has, under every assignment, the value of \<open>cond\<close> (and has
  no value exactly where \<open>cond\<close> has none).
\<close>

theorem ImplicationNotContainingVars_correct:
  assumes "well_formed cond" and "is_bool (type_of cond)"
  shows "\<exists>outer inner.
           ImplicationNotContainingVars cond vars = Some (outer, inner) \<and>
           vars_of outer \<inter> vars = {} \<and>
           (\<forall>E. eval E (And outer inner) = eval E cond)"
proof -
  from ImplicationNotContainingVars_total [OF assms]
  obtain outer inner where r: "ImplicationNotContainingVars cond vars = Some (outer, inner)"
    by (metis surj_pair)
  from ImplicationNotContainingVars_sound [OF r] r show ?thesis
    by blast
qed

theorem ImplicationNotContainingVars_correct_witness:
  "let x = Variable (Var ''x'' (Int_t 32)); y = Variable (Var ''y'' (Int_t 32));
       z = Variable (Var ''z'' (Int_t 32));
       cond = Or (And (Cmp GT x (IntImm (Int_t 32) 0)) (Cmp LT y (IntImm (Int_t 32) 5)))
                 (Cmp EQ z (IntImm (Int_t 32) 1));
       vars = {Var ''y'' (Int_t 32)}
   in well_formed cond \<and> is_bool (type_of cond) \<and>
      (\<exists>outer inner.
         ImplicationNotContainingVars cond vars = Some (outer, inner) \<and>
         vars_of outer \<inter> vars = {} \<and>
         (\<forall>E. eval E (And outer inner) = eval E cond))"
proof -
  let ?c = "Or (And (Cmp GT (Variable (Var ''x'' (Int_t 32))) (IntImm (Int_t 32) 0))
                    (Cmp LT (Variable (Var ''y'' (Int_t 32))) (IntImm (Int_t 32) 5)))
               (Cmp EQ (Variable (Var ''z'' (Int_t 32))) (IntImm (Int_t 32) 1))"
  have wf: "well_formed ?c" and b: "is_bool (type_of ?c)"
    by (simp_all add: is_bool_def Bool_t_def)
  from ImplicationNotContainingVars_correct [OF wf b, of "{Var ''y'' (Int_t 32)}"] wf b
  show ?thesis
    unfolding Let_def by blast
qed

end
